theory Spec2Isabelle
  imports Complex_Main
begin

section \<open>Values and the runtime outside the repository\<close>

text \<open>
  A calendar date (year, month, day) and the Python values that reach the store as
  cells of a DataFrame, entries of an event dict or statement parameters.
  \<open>VNull\<close> stands for a missing value (\<open>None\<close>, \<open>NaN\<close>), which SQLite stores as NULL;
  a float is given by its rational value.
  \<open>VObj\<close> stands for an object of any other type (a dict, for instance), given by a
  description.
  Values are compared as Python values: SQLite's type affinity (the integer 1 written
  into a text column becoming the text 1) is outside the model, so statements about key
  conflicts ask for tickers that are strings and dates that are dates.
\<close>

type_synonym date = "nat \<times> nat \<times> nat"

datatype val = VNull | VInt int | VFloat rat | VStr string | VDate date | VObj string

text \<open>
  What the \<open>sqlite3\<close> driver binds as a parameter: \<open>None\<close>, integers of 64 bits (it raises
  \<open>OverflowError\<close> for any other), floats, strings and dates, and no object of another type.
\<close>

fun bindable :: "val \<Rightarrow> bool" where
  "bindable (VObj d) = False"
| "bindable (VInt n) = (- (2 ^ 63) \<le> n \<and> n < 2 ^ 63)"
| "bindable v = True"

fun is_str :: "val \<Rightarrow> bool" where
  "is_str (VStr s) = True"
| "is_str v = False"

fun is_date :: "val \<Rightarrow> bool" where
  "is_date (VDate d) = True"
| "is_date v = False"

text \<open>A Python dict with string keys, and \<open>dict.get\<close> with its default \<open>None\<close>.\<close>

type_synonym pydict = "(string \<times> val) list"

definition dict_get :: "pydict \<Rightarrow> string \<Rightarrow> val" where
  "dict_get d k = (case map_of d k of None \<Rightarrow> VNull | Some v \<Rightarrow> v)"

datatype error =
    ConnectError          \<comment> \<open>\<open>engine.connect()\<close> raised\<close>
  | DateConversionError   \<comment> \<open>\<open>pd.to_datetime\<close> raised\<close>
  | SyntaxError           \<comment> \<open>the statement names no column\<close>
  | NoSuchTable           \<comment> \<open>the statement names a table that was never created\<close>
  | BindError             \<comment> \<open>a parameter of a type the driver cannot bind\<close>
  | StorageError          \<comment> \<open>the storage engine failed while executing or committing\<close>
  | UpstreamError         \<comment> \<open>fetching, processing or detection raised\<close>
  | ConfigError           \<comment> \<open>\<open>load_config\<close> or \<open>setup_logging\<close> raised\<close>
  | ExportError           \<comment> \<open>writing the JSON summary raised\<close>

text \<open>
  What the functions of \<open>database.py\<close> call and this repository does not define, taken as
  parameters: \<open>to_date\<close> is \<open>pd.to_datetime(column).dt.date\<close> on the values of a whole
  column (\<open>None\<close> when pandas raises); \<open>keeps_empty_records\<close> says what
  \<open>to_dict(orient="records")\<close> gives for a frame that has rows and no column, one empty
  dict per row (pandas 3) or no record (pandas 2); \<open>py_str\<close> is Python's \<open>str\<close>;
  \<open>can_bind\<close> says which values the database driver binds as parameters; and the three
  remaining fields say where the storage engine fails during one call: on connecting, on
  the k-th \<open>conn.execute\<close> of the call (counted from 0), on committing.
\<close>

record runtime =
  to_date :: "val list \<Rightarrow> val list option"
  keeps_empty_records :: bool
  py_str :: "val \<Rightarrow> string"
  can_bind :: "val \<Rightarrow> bool"
  connect_fails :: bool
  execute_fails :: "nat \<Rightarrow> bool"
  commit_fails :: bool

section \<open>The schema of \<open>database.py\<close>\<close>

text \<open>
  The three ORM classes. Every class has an integer primary key \<open>id\<close>; a stored row is
  the pair of its id and its other columns, and a table is the list of its rows in
  insertion order. Only \<open>id\<close> is declared non-null in \<open>daily_metrics\<close> and
  \<open>signal_events\<close>, so every other column can hold NULL.
\<close>

record Ticker =
  tk_ticker :: val
  tk_added_at :: val
  tk_info :: val

record DailyMetric =
  dm_ticker :: val
  dm_date :: val
  dm_open :: val
  dm_high :: val
  dm_low :: val
  dm_close :: val
  dm_volume :: val
  dm_sma50 :: val
  dm_sma200 :: val
  dm_price_to_book :: val
  dm_bvps :: val
  dm_enterprise_value :: val

record SignalEvent =
  se_ticker :: val
  se_date :: val
  se_signal_type :: val
  se_meta :: val

type_synonym 'r table = "(nat \<times> 'r) list"

text \<open>A table that was never created is \<open>None\<close>.\<close>

record store =
  tickers :: "Ticker table option"
  daily_metrics :: "DailyMetric table option"
  signal_events :: "SignalEvent table option"

definition empty_db :: store where
  "empty_db = \<lparr>tickers = None, daily_metrics = None, signal_events = None\<rparr>"

text \<open>\<open>Base.metadata.create_all\<close>: every table that does not exist is created empty.\<close>

definition create_table :: "'r table option \<Rightarrow> 'r table option" where
  "create_table t = (case t of None \<Rightarrow> Some [] | Some rows \<Rightarrow> Some rows)"

definition init_db :: "store \<Rightarrow> store" where
  "init_db s = \<lparr>tickers = create_table (tickers s),
                daily_metrics = create_table (daily_metrics s),
                signal_events = create_table (signal_events s)\<rparr>"

text \<open>
  The unique constraints \<open>u_ticker_date\<close> and \<open>u_signal_unique\<close>, and the unique
  column of \<open>tickers\<close>. In SQLite a row with
  NULL in a column of a unique constraint conflicts with no row, so such a row has no key.
\<close>

definition dm_key :: "DailyMetric \<Rightarrow> (val \<times> val) option" where
  "dm_key m = (if dm_ticker m = VNull \<or> dm_date m = VNull then None
               else Some (dm_ticker m, dm_date m))"

definition tk_key :: "Ticker \<Rightarrow> val option" where
  "tk_key t = (if tk_ticker t = VNull then None else Some (tk_ticker t))"

definition se_key :: "SignalEvent \<Rightarrow> (val \<times> val \<times> val) option" where
  "se_key e = (if se_ticker e = VNull \<or> se_date e = VNull \<or> se_signal_type e = VNull then None
               else Some (se_ticker e, se_date e, se_signal_type e))"

text \<open>
  \<open>INSERT OR REPLACE\<close> without a value for \<open>id\<close>: the new row takes the id after the
  largest one in the table, the rows that would violate the unique constraint are deleted,
  and the new row is added. Ids are natural numbers; the bound SQLite puts on them (63
  bits) is outside the model.
\<close>

definition next_rowid :: "'r table \<Rightarrow> nat" where
  "next_rowid tbl = Suc (fold max (map fst tbl) 0)"

definition conflicts :: "('r \<Rightarrow> 'k option) \<Rightarrow> 'r \<Rightarrow> 'r \<Rightarrow> bool" where
  "conflicts key new old = (key new \<noteq> None \<and> key old = key new)"

definition insert_or_replace :: "('r \<Rightarrow> 'k option) \<Rightarrow> 'r \<Rightarrow> 'r table \<Rightarrow> 'r table" where
  "insert_or_replace key new tbl =
     filter (\<lambda>row. \<not> conflicts key new (snd row)) tbl @ [(next_rowid tbl, new)]"

text \<open>The relation a table holds, as the logical schema has it: the rows without ids.\<close>

definition relation :: "'r table option \<Rightarrow> 'r list option" where
  "relation t = map_option (map snd) t"

definition observable :: "store \<Rightarrow> Ticker list option \<times> DailyMetric list option \<times> SignalEvent list option" where
  "observable s = (relation (tickers s), relation (daily_metrics s), relation (signal_events s))"

text \<open>A relation satisfies a unique constraint when no two of its rows share a key.\<close>

definition unique_keys :: "('r \<Rightarrow> 'k option) \<Rightarrow> 'r list \<Rightarrow> bool" where
  "unique_keys key rs = distinct (map key (filter (\<lambda>r. key r \<noteq> None) rs))"

definition table_unique :: "('r \<Rightarrow> 'k option) \<Rightarrow> 'r table option \<Rightarrow> bool" where
  "table_unique key t = (case t of None \<Rightarrow> True | Some rows \<Rightarrow> unique_keys key (map snd rows))"

definition constraints_hold :: "store \<Rightarrow> bool" where
  "constraints_hold s =
     (table_unique tk_key (tickers s) \<and> table_unique dm_key (daily_metrics s)
      \<and> table_unique se_key (signal_events s))"

text \<open>
  \<open>INSERT OR REPLACE\<close> seen on the relation, and what a sequence of them leaves of the
  rows it writes: of the rows that share a key, the last one.
\<close>

definition upsert :: "('r \<Rightarrow> 'k option) \<Rightarrow> 'r \<Rightarrow> 'r list \<Rightarrow> 'r list" where
  "upsert key new rs = filter (\<lambda>old. \<not> conflicts key new old) rs @ [new]"

fun last_wins :: "('r \<Rightarrow> 'k option) \<Rightarrow> 'r list \<Rightarrow> 'r list" where
  "last_wins key [] = []"
| "last_wins key (m # ms) =
     (if key m \<in> key ` set ms then last_wins key ms else m # last_wins key ms)"

section \<open>DataFrames\<close>

text \<open>
  A pandas DataFrame: its column names and its rows, each row holding one cell per
  column. \<open>wf_frame\<close> is what every DataFrame satisfies.
\<close>

record dataframe =
  columns :: "string list"
  rows :: "val list list"

definition wf_frame :: "dataframe \<Rightarrow> bool" where
  "wf_frame df = (distinct (columns df) \<and> list_all (\<lambda>r. length r = length (columns df)) (rows df))"

definition cell :: "string list \<Rightarrow> val list \<Rightarrow> string \<Rightarrow> val" where
  "cell cs r c = dict_get (zip cs r) c"

text \<open>\<open>df[c]\<close>, \<open>df[c] = vs\<close> and \<open>df[cs]\<close>.\<close>

definition column_values :: "dataframe \<Rightarrow> string \<Rightarrow> val list" where
  "column_values df c = map (\<lambda>r. cell (columns df) r c) (rows df)"

definition set_cell :: "string list \<Rightarrow> string \<Rightarrow> val list \<Rightarrow> val \<Rightarrow> val list" where
  "set_cell cs c r v = map (\<lambda>(c', x). if c' = c then v else x) (zip cs r)"

definition assign_column :: "dataframe \<Rightarrow> string \<Rightarrow> val list \<Rightarrow> dataframe" where
  "assign_column df c vs =
     df\<lparr>rows := map (\<lambda>(r, v). set_cell (columns df) c r v) (zip (rows df) vs)\<rparr>"

definition select_columns :: "string list \<Rightarrow> dataframe \<Rightarrow> dataframe" where
  "select_columns cs df =
     \<lparr>columns = cs, rows = map (\<lambda>r. map (cell (columns df) r) cs) (rows df)\<rparr>"

text \<open>
  \<open>df.to_dict(orient="records")\<close>: one dict per row. For a frame without columns the
  result depends on the version of pandas: it is one empty dict per row, or no record at
  all (pandas 2 builds the rows by zipping the columns).
\<close>

definition to_dict_records :: "runtime \<Rightarrow> dataframe \<Rightarrow> pydict list" where
  "to_dict_records rt df =
     (if columns df = [] \<and> \<not> keeps_empty_records rt then []
      else map (zip (columns df)) (rows df))"

section \<open>\<open>save_daily_metrics\<close>\<close>

definition metric_columns :: "string list" where
  "metric_columns = [''ticker'', ''date'', ''open'', ''high'', ''low'', ''close'', ''volume'',
     ''sma50'', ''sma200'', ''price_to_book'', ''bvps'', ''enterprise_value'']"

text \<open>
  Lines 82 to 93: the date column, when there is one, is converted; the columns of the
  allowlist that the frame has are selected, in the order of the allowlist; the rows
  become dicts.
\<close>

definition metric_records :: "runtime \<Rightarrow> dataframe \<Rightarrow> pydict list option" where
  "metric_records rt df =
     (case (if ''date'' \<in> set (columns df)
            then map_option (assign_column df ''date'') (to_date rt (column_values df ''date''))
            else Some df) of
        None \<Rightarrow> None
      | Some df2 \<Rightarrow>
          Some (to_dict_records rt
                  (select_columns (filter (\<lambda>c. c \<in> set (columns df2)) metric_columns) df2)))"

text \<open>
  The row one statement of lines 101 to 105 writes: the statement names the keys of the
  dict as columns, and a column it does not name is NULL.
\<close>

definition metric_of :: "pydict \<Rightarrow> DailyMetric" where
  "metric_of r =
     \<lparr>dm_ticker = dict_get r ''ticker'', dm_date = dict_get r ''date'',
      dm_open = dict_get r ''open'', dm_high = dict_get r ''high'',
      dm_low = dict_get r ''low'', dm_close = dict_get r ''close'',
      dm_volume = dict_get r ''volume'', dm_sma50 = dict_get r ''sma50'',
      dm_sma200 = dict_get r ''sma200'', dm_price_to_book = dict_get r ''price_to_book'',
      dm_bvps = dict_get r ''bvps'', dm_enterprise_value = dict_get r ''enterprise_value''\<rparr>"

text \<open>
  One \<open>conn.execute\<close> inside the transaction, on the uncommitted state: it raises when
  the dict is empty (the statement then reads \<open>INSERT OR REPLACE INTO daily_metrics ()
  VALUES ()\<close>, which SQLite does not parse), when the table does not exist, when a value of
  the dict cannot be bound, or when the storage engine fails at this statement.
\<close>

definition execute_metric :: "runtime \<Rightarrow> nat \<Rightarrow> pydict \<Rightarrow> store \<Rightarrow> error + store" where
  "execute_metric rt k r s =
     (if r = [] then Inl SyntaxError
      else case daily_metrics s of
        None \<Rightarrow> Inl NoSuchTable
      | Some tbl \<Rightarrow>
          if \<not> list_all (can_bind rt) (map snd r) then Inl BindError
          else if execute_fails rt k then Inl StorageError
          else Inr (s\<lparr>daily_metrics := Some (insert_or_replace dm_key (metric_of r) tbl)\<rparr>))"

fun insert_metrics :: "runtime \<Rightarrow> nat \<Rightarrow> pydict list \<Rightarrow> store \<Rightarrow> error + store" where
  "insert_metrics rt k [] s = Inr s"
| "insert_metrics rt k (r # rs) s =
     (case execute_metric rt k r s of
        Inl e \<Rightarrow> Inl e
      | Inr s' \<Rightarrow> insert_metrics rt (Suc k) rs s')"

text \<open>
  \<open>with conn.begin()\<close>: the body runs on the uncommitted state; an exception rolls back
  to the state before the block and is raised again, otherwise the block commits. The
  result is the exception raised, if any, and the committed state.
\<close>

definition transaction :: "runtime \<Rightarrow> (store \<Rightarrow> error + store) \<Rightarrow> store \<Rightarrow> error option \<times> store" where
  "transaction rt body s =
     (case body s of
        Inl e \<Rightarrow> (Some e, s)
      | Inr s' \<Rightarrow> if commit_fails rt then (Some StorageError, s) else (None, s'))"

definition save_daily_metrics :: "runtime \<Rightarrow> dataframe \<Rightarrow> store \<Rightarrow> error option \<times> store" where
  "save_daily_metrics rt df s =
     (if connect_fails rt then (Some ConnectError, s)
      else case metric_records rt df of
        None \<Rightarrow> (Some DateConversionError, s)
      | Some records \<Rightarrow>
          if records = [] then (None, s)
          else transaction rt (insert_metrics rt 0 records) s)"

text \<open>What a call that commits the records \<open>rs\<close> leaves in the store.\<close>

definition write_metrics :: "pydict list \<Rightarrow> store \<Rightarrow> store" where
  "write_metrics rs s =
     s\<lparr>daily_metrics :=
         map_option (fold (\<lambda>r. insert_or_replace dm_key (metric_of r)) rs) (daily_metrics s)\<rparr>"

text \<open>
  A record the driver can execute names a column and holds only values the driver binds.
  A valid batch: the frame is a DataFrame with distinct column names, the conversion of
  the dates succeeds, and every record has a string as ticker, a date as date and only
  values the driver binds. A reliable runtime is one whose storage engine does not fail.
\<close>

definition executable_record :: "runtime \<Rightarrow> pydict \<Rightarrow> bool" where
  "executable_record rt r = (r \<noteq> [] \<and> list_all (can_bind rt) (map snd r))"

definition valid_metric_record :: "runtime \<Rightarrow> pydict \<Rightarrow> bool" where
  "valid_metric_record rt r =
     (is_str (dict_get r ''ticker'') \<and> is_date (dict_get r ''date'')
      \<and> list_all (can_bind rt) (map snd r))"

definition valid_batch :: "runtime \<Rightarrow> dataframe \<Rightarrow> bool" where
  "valid_batch rt df =
     (wf_frame df \<and>
      (case metric_records rt df of
         None \<Rightarrow> False
       | Some records \<Rightarrow> list_all (valid_metric_record rt) records))"

definition reliable :: "runtime \<Rightarrow> bool" where
  "reliable rt = (\<not> connect_fails rt \<and> execute_fails rt = (\<lambda>k. False) \<and> \<not> commit_fails rt)"

section \<open>\<open>save_signal_events\<close>\<close>

text \<open>
  Lines 119 to 123: the three fields are read with \<open>dict.get\<close>, so a missing one is
  \<open>None\<close>; \<open>meta\<close> is stored as its \<open>str\<close>.
\<close>

definition signal_of :: "runtime \<Rightarrow> string \<Rightarrow> pydict \<Rightarrow> SignalEvent" where
  "signal_of rt ticker ev =
     \<lparr>se_ticker = VStr ticker, se_date = dict_get ev ''date'',
      se_signal_type = dict_get ev ''signal_type'',
      se_meta = VStr (py_str rt (dict_get ev ''meta''))\<rparr>"

text \<open>The driver binds the four parameters of the statement of line 122.\<close>

definition bindable_event :: "runtime \<Rightarrow> string \<Rightarrow> pydict \<Rightarrow> bool" where
  "bindable_event rt ticker ev =
     (can_bind rt (VStr ticker) \<and> can_bind rt (dict_get ev ''date'')
      \<and> can_bind rt (dict_get ev ''signal_type'')
      \<and> can_bind rt (VStr (py_str rt (dict_get ev ''meta''))))"

definition execute_signal :: "runtime \<Rightarrow> nat \<Rightarrow> string \<Rightarrow> pydict \<Rightarrow> store \<Rightarrow> error + store" where
  "execute_signal rt k ticker ev s =
     (case signal_events s of
        None \<Rightarrow> Inl NoSuchTable
      | Some tbl \<Rightarrow>
          if \<not> bindable_event rt ticker ev then Inl BindError
          else if execute_fails rt k then Inl StorageError
          else Inr (s\<lparr>signal_events := Some (insert_or_replace se_key (signal_of rt ticker ev) tbl)\<rparr>))"

fun insert_signals :: "runtime \<Rightarrow> nat \<Rightarrow> string \<Rightarrow> pydict list \<Rightarrow> store \<Rightarrow> error + store" where
  "insert_signals rt k ticker [] s = Inr s"
| "insert_signals rt k ticker (ev # evs) s =
     (case execute_signal rt k ticker ev s of
        Inl e \<Rightarrow> Inl e
      | Inr s' \<Rightarrow> insert_signals rt (Suc k) ticker evs s')"

definition save_signal_events :: "runtime \<Rightarrow> string \<Rightarrow> pydict list \<Rightarrow> store \<Rightarrow> error option \<times> store" where
  "save_signal_events rt ticker events s =
     (if connect_fails rt then (Some ConnectError, s)
      else transaction rt (insert_signals rt 0 ticker events) s)"

text \<open>
  The batch without the fields outside the allowlist, and what a call that commits the
  events \<open>evs\<close> leaves in the store.
\<close>

definition drop_extra :: "dataframe \<Rightarrow> dataframe" where
  "drop_extra df = select_columns (filter (\<lambda>c. c \<in> set metric_columns) (columns df)) df"

definition write_signals :: "runtime \<Rightarrow> string \<Rightarrow> pydict list \<Rightarrow> store \<Rightarrow> store" where
  "write_signals rt ticker evs s =
     s\<lparr>signal_events :=
         map_option (fold (\<lambda>ev. insert_or_replace se_key (signal_of rt ticker ev)) evs)
           (signal_events s)\<rparr>"

section \<open>The pipeline of \<open>main.py\<close>\<close>

text \<open>
  What \<open>run\<close> needs beside the store: whether \<open>load_config\<close> or \<open>setup_logging\<close>
  raises, which values \<open>json.dump\<close> has an encoding for, and whether building the rest of
  the summary or writing the file raises.
\<close>

record host =
  config_fails :: bool
  json_encodes :: "val \<Rightarrow> bool"
  export_fails :: bool

text \<open>
  What \<open>fetch_stock_data\<close>, \<open>process_data\<close> and the two detectors return is taken as
  given: the frame handed to \<open>save_daily_metrics\<close> and the two sequences of dates.
\<close>

record upstream =
  processed :: dataframe
  golden_dates :: "val list"
  death_dates :: "val list"

text \<open>Lines 65 to 69: one event per date.\<close>

definition event_of :: "string \<Rightarrow> val \<Rightarrow> pydict" where
  "event_of kind d = [(''date'', d), (''signal_type'', VStr kind), (''meta'', VObj ''{}'')]"

text \<open>
  \<open>run\<close>, lines 41 to 87: configuration and logging; the initialisation of the database
  when asked for; fetching, processing and detection (the argument is \<open>None\<close> when one of
  them, or the preparation of the frame, raised); the two calls of the store; the JSON
  export, which writes the events with their dates and raises when \<open>json.dump\<close> has no
  encoding for one of them, after both calls have committed. The runtime is given twice,
  for the initialisation and \<open>save_daily_metrics\<close> and for \<open>save_signal_events\<close>, since
  the storage engine can fail in one call and not in the other.
\<close>

definition run :: "host \<Rightarrow> runtime \<Rightarrow> runtime \<Rightarrow> string \<Rightarrow> bool \<Rightarrow> upstream option \<Rightarrow> store \<Rightarrow> error option \<times> store" where
  "run h rt1 rt2 ticker initdb up s =
     (if config_fails h then (Some ConfigError, s)
      else if initdb \<and> connect_fails rt1 then (Some ConnectError, s)
      else let s1 = (if initdb then init_db s else s) in
        case up of
          None \<Rightarrow> (Some UpstreamError, s1)
        | Some u \<Rightarrow>
            let events = map (event_of ''golden_cross'') (golden_dates u)
                         @ map (event_of ''death_cross'') (death_dates u)
            in (case save_daily_metrics rt1 (processed u) s1 of
                  (Some e, s2) \<Rightarrow> (Some e, s2)
                | (None, s2) \<Rightarrow>
                    (case save_signal_events rt2 ticker events s2 of
                       (Some e, s3) \<Rightarrow> (Some e, s3)
                     | (None, s3) \<Rightarrow>
                         if export_fails h
                            \<or> \<not> list_all (json_encodes h) (golden_dates u @ death_dates u)
                         then (Some ExportError, s3)
                         else (None, s3))))"

section \<open>Indicator Processor and Signal Detector\<close>

text \<open>
  \<open>processor.py\<close> (\<open>process_data\<close>) and \<open>signals.py\<close> (\<open>detect_golden_crossover\<close>,
  \<open>detect_death_cross\<close>) are imported by \<open>main.py\<close> and are not among the sources. The
  definitions of this section follow sections 3, 4.1 and 4.2 of the spec. Numbers are exact
  rationals, not floating-point numbers.
\<close>

text \<open>
  Modelled from the spec: the RawBar of section 3, which \<open>processor.py\<close> would read. It has
  a date and numeric fields that may be absent.
\<close>

record RawBar =
  rb_date :: date
  rb_open :: "rat option"
  rb_high :: "rat option"
  rb_low :: "rat option"
  rb_close :: "rat option"
  rb_volume :: "rat option"
  rb_price_to_book :: "rat option"
  rb_bvps :: "rat option"
  rb_enterprise_value :: "rat option"

text \<open>
  Modelled from the spec: the MetricRecord of section 3, which \<open>processor.py\<close> would
  return. It has all fields of a RawBar, and \<open>sma50\<close> and \<open>sma200\<close>, which may be
  undefined.
\<close>

record MetricRecord =
  bar :: RawBar
  sma50 :: "rat option"
  sma200 :: "rat option"

text \<open>
  Modelled from the spec: the trailing window \<open>[i - (n - 1), i]\<close> of section 4.1, for a
  computation missing with \<open>processor.py\<close>.
\<close>

definition window :: "nat \<Rightarrow> 'a list \<Rightarrow> nat \<Rightarrow> 'a list" where
  "window n xs i = take n (drop (Suc i - n) xs)"

text \<open>
  Modelled from the spec: the moving average of section 4.1, missing with \<open>processor.py\<close>.
  At index \<open>i\<close> over \<open>n\<close> values it is defined when \<open>i \<ge> n - 1\<close> and every close of
  the trailing window is present, and is then their arithmetic mean.
\<close>

definition sma :: "nat \<Rightarrow> rat option list \<Rightarrow> nat \<Rightarrow> rat option" where
  "sma n closes i =
     (if n \<le> Suc i \<and> i < length closes
      then case those (window n closes i) of
             None \<Rightarrow> None
           | Some w \<Rightarrow> Some (sum_list w / of_nat n)
      else None)"

text \<open>
  Modelled from the spec: \<open>process\<close> of section 4.1, for \<open>process_data\<close> of the missing
  \<open>processor.py\<close>. Every bar passes through unchanged, with its two averages.
\<close>

definition process :: "RawBar list \<Rightarrow> MetricRecord list" where
  "process raw =
     map (\<lambda>(i, b). \<lparr>bar = b, sma50 = sma 50 (map rb_close raw) i,
                     sma200 = sma 200 (map rb_close raw) i\<rparr>)
       (enumerate 0 raw)"

text \<open>
  Modelled from the spec: the golden-cross condition of section 4.2, missing with
  \<open>signals.py\<close>. It holds between a record and the one after it when both averages are
  defined at both and the short one goes from at or below the long one to above it.
\<close>

definition golden_at :: "MetricRecord \<Rightarrow> MetricRecord \<Rightarrow> bool" where
  "golden_at prev cur =
     (case (sma50 prev, sma200 prev, sma50 cur, sma200 cur) of
        (Some a, Some b, Some c, Some d) \<Rightarrow> a \<le> b \<and> c > d
      | _ \<Rightarrow> False)"

text \<open>
  Modelled from the spec: the death-cross condition of section 4.2, missing with
  \<open>signals.py\<close>, the mirror of the golden cross.
\<close>

definition death_at :: "MetricRecord \<Rightarrow> MetricRecord \<Rightarrow> bool" where
  "death_at prev cur =
     (case (sma50 prev, sma200 prev, sma50 cur, sma200 cur) of
        (Some a, Some b, Some c, Some d) \<Rightarrow> a \<ge> b \<and> c < d
      | _ \<Rightarrow> False)"

text \<open>
  Modelled from the spec: \<open>detect_golden_crossover\<close> of section 4.2, missing with
  \<open>signals.py\<close>. It gives the dates of the records at which the condition holds with the
  record before, in the order of the series.
\<close>

definition detect_golden_crossover :: "MetricRecord list \<Rightarrow> date list" where
  "detect_golden_crossover series =
     map (\<lambda>(prev, cur). rb_date (bar cur))
       (filter (\<lambda>(prev, cur). golden_at prev cur) (zip series (tl series)))"

text \<open>
  Modelled from the spec: \<open>detect_death_cross\<close> of section 4.2, missing with
  \<open>signals.py\<close>, as \<open>detect_golden_crossover\<close> with the other condition.
\<close>

definition detect_death_cross :: "MetricRecord list \<Rightarrow> date list" where
  "detect_death_cross series =
     map (\<lambda>(prev, cur). rb_date (bar cur))
       (filter (\<lambda>(prev, cur). death_at prev cur) (zip series (tl series)))"

section \<open>Sample inputs\<close>

text \<open>
  A runtime for the examples: the storage engine never fails, the driver is \<open>sqlite3\<close>,
  pandas gives no record for a frame without columns, a date column that holds dates
  converts to itself and any other is rejected, and \<open>str\<close> is given on \<open>None\<close>, on
  strings and on objects (an object is described by its \<open>str\<close>); the examples apply it
  to nothing else.
\<close>

definition demo_runtime :: runtime where
  "demo_runtime =
     \<lparr>to_date = (\<lambda>vs. if list_all is_date vs then Some vs else None),
      keeps_empty_records = False,
      py_str = (\<lambda>v. case v of VStr s \<Rightarrow> s | VObj d \<Rightarrow> d | _ \<Rightarrow> ''None''),
      can_bind = bindable,
      connect_fails = False, execute_fails = (\<lambda>k. False), commit_fails = False\<rparr>"

definition demo_frame :: dataframe where
  "demo_frame =
     \<lparr>columns = [''date'', ''ticker'', ''close'', ''note''],
      rows = [[VDate (2024, 1, 2), VStr ''ACME'', VFloat 10, VStr ''first''],
              [VDate (2024, 1, 3), VStr ''ACME'', VFloat 11, VStr ''second'']]\<rparr>"

text \<open>
  The row of \<open>daily_metrics\<close> that holds the ticker ACME, a date and a close, and NULL in
  every other column.
\<close>

definition acme_row :: "date \<Rightarrow> rat \<Rightarrow> DailyMetric" where
  "acme_row d c =
     \<lparr>dm_ticker = VStr ''ACME'', dm_date = VDate d, dm_open = VNull, dm_high = VNull,
      dm_low = VNull, dm_close = VFloat c, dm_volume = VNull, dm_sma50 = VNull,
      dm_sma200 = VNull, dm_price_to_book = VNull, dm_bvps = VNull,
      dm_enterprise_value = VNull\<rparr>"

text \<open>The same runtime with a storage engine that fails at the second statement of a call.\<close>

definition flaky_runtime :: runtime where
  "flaky_runtime = demo_runtime\<lparr>execute_fails := (\<lambda>k. k = 1)\<rparr>"

definition demo_events :: "pydict list" where
  "demo_events = [event_of ''golden_cross'' (VDate (2024, 1, 3))]"

text \<open>
  A host whose configuration loads and whose summary file can be written; \<open>json.dump\<close>
  encodes \<open>None\<close>, numbers and strings, and raises \<open>TypeError\<close> for a date. The results
  of the steps before the store, with the date of the golden cross as an ISO string.
\<close>

definition demo_host :: host where
  "demo_host =
     \<lparr>config_fails = False,
      json_encodes = (\<lambda>v. case v of VDate d \<Rightarrow> False | VObj d \<Rightarrow> False | _ \<Rightarrow> True),
      export_fails = False\<rparr>"

definition demo_upstream :: upstream where
  "demo_upstream =
     \<lparr>processed = demo_frame, golden_dates = [VStr ''2024-01-03''], death_dates = []\<rparr>"

text \<open>
  The same runtime with a pandas that gives one empty dict per row for a frame without
  columns, a frame that has a row and no column of the allowlist, and a frame whose
  volume is an integer of more than 64 bits.
\<close>

definition pandas3_runtime :: runtime where
  "pandas3_runtime = demo_runtime\<lparr>keeps_empty_records := True\<rparr>"

definition extras_only_frame :: dataframe where
  "extras_only_frame = \<lparr>columns = [''note''], rows = [[VStr ''first'']]\<rparr>"

definition big_frame :: dataframe where
  "big_frame =
     \<lparr>columns = [''ticker'', ''date'', ''volume''],
      rows = [[VStr ''ACME'', VDate (2024, 1, 2), VInt (2 ^ 63)]]\<rparr>"

text \<open>A frame without the key column \<open>ticker\<close>.\<close>

definition keyless_frame :: dataframe where
  "keyless_frame = \<lparr>columns = [''date'', ''close''], rows = [[VDate (2024, 1, 2), VFloat 10]]\<rparr>"

definition demo_frame2 :: dataframe where
  "demo_frame2 =
     \<lparr>columns = [''ticker'', ''date'', ''close''],
      rows = [[VStr ''ACME'', VDate (2024, 1, 2), VFloat 12]]\<rparr>"

text \<open>
  Sample series: bars that give only a date and prices, a series of \<open>n\<close> bars closing
  at \<open>c\<close>, a series of 260 bars whose close is missing at index 30 only, and three
  metric records with the averages 10, 10, 12 and 11, 11, 11.
\<close>

definition sample_bar :: "nat \<Rightarrow> rat option \<Rightarrow> RawBar" where
  "sample_bar i c =
     \<lparr>rb_date = (2000 + i, 1, 3), rb_open = c, rb_high = c, rb_low = c, rb_close = c,
      rb_volume = None, rb_price_to_book = None, rb_bvps = None, rb_enterprise_value = None\<rparr>"

definition flat_series :: "nat \<Rightarrow> rat \<Rightarrow> RawBar list" where
  "flat_series n c = map (\<lambda>i. sample_bar i (Some c)) [0..<n]"

definition gap_series :: "RawBar list" where
  "gap_series = map (\<lambda>i. sample_bar i (if i = 30 then None else Some 1)) [0..<260]"

definition cross_series :: "MetricRecord list" where
  "cross_series =
     [\<lparr>bar = sample_bar 0 (Some 10), sma50 = Some 10, sma200 = Some 11\<rparr>,
      \<lparr>bar = sample_bar 1 (Some 10), sma50 = Some 10, sma200 = Some 11\<rparr>,
      \<lparr>bar = sample_bar 2 (Some 12), sma50 = Some 12, sma200 = Some 11\<rparr>]"

section \<open>Replacing inserts on a relation\<close>

lemma relation_insert_or_replace:
  "map snd (insert_or_replace key new tbl) = upsert key new (map snd tbl)"
  by (simp add: insert_or_replace_def upsert_def filter_map o_def)

lemma relation_fold_insert:
  "map snd (fold (\<lambda>r. insert_or_replace key (f r)) rs tbl) = fold (upsert key) (map f rs) (map snd tbl)"
  by (induction rs arbitrary: tbl) (simp_all add: relation_insert_or_replace)

lemma fold_upsert:
  "\<forall>m \<in> set ms. key m \<noteq> None \<Longrightarrow>
   fold (upsert key) ms xs = filter (\<lambda>x. key x \<notin> key ` set ms) xs @ last_wins key ms"
proof (induction ms arbitrary: xs)
  case Nil
  then show ?case by simp
next
  case (Cons m ms)
  have "fold (upsert key) (m # ms) xs = fold (upsert key) ms (upsert key m xs)" by simp
  also have "\<dots> = filter (\<lambda>x. key x \<notin> key ` set ms) (upsert key m xs) @ last_wins key ms"
    using Cons by simp
  also have "\<dots> = filter (\<lambda>x. key x \<notin> key ` set (m # ms)) xs @ last_wins key (m # ms)"
    using Cons.prems by (auto simp: upsert_def conflicts_def intro!: filter_cong)
  finally show ?case .
qed

lemma key_last_wins: "key ` set (last_wins key ms) = key ` set ms"
  by (induction ms) auto

lemma set_last_wins: "set (last_wins key ms) \<subseteq> set ms"
  by (induction ms) auto

lemma distinct_last_wins: "distinct (map key (last_wins key ms))"
  by (induction ms) (auto simp: key_last_wins[symmetric] simp del: last_wins.simps(2) , auto simp: key_last_wins)

lemma fold_upsert_twice:
  assumes "\<forall>m \<in> set ms. key m \<noteq> None"
  shows "fold (upsert key) ms (fold (upsert key) ms xs) = fold (upsert key) ms xs"
proof -
  have "filter (\<lambda>x. key x \<notin> key ` set ms) (last_wins key ms) = []"
    using set_last_wins[of key ms] by (auto simp: filter_empty_conv)
  then show ?thesis by (simp add: fold_upsert[OF assms])
qed

lemma unique_keys_fold_upsert:
  assumes "\<forall>m \<in> set ms. key m \<noteq> None" and "unique_keys key xs"
  shows "unique_keys key (fold (upsert key) ms xs)"
proof -
  have a: "distinct (map key (filter (\<lambda>r. key r \<noteq> None) (filter (\<lambda>x. key x \<notin> key ` set ms) xs)))"
  proof -
    have "filter (\<lambda>r. key r \<noteq> None) (filter (\<lambda>x. key x \<notin> key ` set ms) xs)
          = filter (\<lambda>x. key x \<notin> key ` set ms) (filter (\<lambda>r. key r \<noteq> None) xs)"
      by (simp add: conj_commute)
    then show ?thesis
      using assms(2) unfolding unique_keys_def by (simp only: distinct_map_filter)
  qed
  have b: "filter (\<lambda>r. key r \<noteq> None) (last_wins key ms) = last_wins key ms"
    using assms(1) set_last_wins[of key ms] by (auto simp: filter_id_conv)
  show ?thesis
    unfolding unique_keys_def fold_upsert[OF assms(1)]
    using a b distinct_last_wins[of key ms] key_last_wins[of key ms]
    by (auto simp: image_iff)
qed

lemma keyed_last_wins:
  "\<exists>m \<in> set ms. key m = k \<Longrightarrow>
   filter (\<lambda>x. key x = k) (last_wins key ms) = [last (filter (\<lambda>x. key x = k) ms)]"
proof (induction ms)
  case Nil
  then show ?case by simp
next
  case (Cons m ms)
  show ?case
  proof (cases "\<exists>m' \<in> set ms. key m' = k")
    case True
    then have ne: "filter (\<lambda>x. key x = k) ms \<noteq> []"
      by (auto simp: filter_empty_conv)
    have "filter (\<lambda>x. key x = k) (last_wins key (m # ms)) = filter (\<lambda>x. key x = k) (last_wins key ms)"
      using True by (auto simp: image_iff)
    then show ?thesis using Cons.IH[OF True] ne by simp
  next
    case False
    then have k: "key m = k" using Cons.prems by auto
    have e: "filter (\<lambda>x. key x = k) ms = []"
      using False by (auto simp: filter_empty_conv)
    have "filter (\<lambda>x. key x = k) (last_wins key ms) = []"
      using False set_last_wins[of key ms] by (auto simp: filter_empty_conv)
    then show ?thesis using k e False by (auto simp: image_iff)
  qed
qed

section \<open>What \<open>save_daily_metrics\<close> writes\<close>

lemma insert_metrics_Inr:
  "insert_metrics rt k rs s = Inr s' \<Longrightarrow>
   s' = s\<lparr>daily_metrics := map_option (fold (\<lambda>r. insert_or_replace dm_key (metric_of r)) rs) (daily_metrics s)\<rparr>"
proof (induction rs arbitrary: k s)
  case Nil
  then show ?case by (simp add: option.map_ident)
next
  case (Cons r rs)
  then obtain s1 where e: "execute_metric rt k r s = Inr s1" and i: "insert_metrics rt (Suc k) rs s1 = Inr s'"
    by (auto split: sum.splits)
  from e obtain tbl where t: "daily_metrics s = Some tbl"
    and s1: "s1 = s\<lparr>daily_metrics := Some (insert_or_replace dm_key (metric_of r) tbl)\<rparr>"
    by (auto simp: execute_metric_def split: option.splits if_splits)
  show ?case using Cons.IH[OF i] t s1 by simp
qed

lemma insert_metrics_ok:
  "execute_fails rt = (\<lambda>k. False) \<Longrightarrow> daily_metrics s \<noteq> None \<Longrightarrow>
   list_all (executable_record rt) rs \<Longrightarrow> \<exists>s'. insert_metrics rt k rs s = Inr s'"
proof (induction rs arbitrary: k s)
  case Nil
  then show ?case by simp
next
  case (Cons r rs)
  then obtain tbl where t: "daily_metrics s = Some tbl" by auto
  let ?s1 = "s\<lparr>daily_metrics := Some (insert_or_replace dm_key (metric_of r) tbl)\<rparr>"
  have e: "execute_metric rt k r s = Inr ?s1"
    using Cons.prems t by (simp add: execute_metric_def executable_record_def)
  have "\<exists>s'. insert_metrics rt (Suc k) rs ?s1 = Inr s'"
    using Cons.prems by (intro Cons.IH) simp_all
  then show ?case using e by simp
qed

lemma write_metrics_Nil [simp]: "write_metrics [] s = s"
  by (simp add: write_metrics_def option.map_id0 id_def[symmetric])

lemma save_daily_metrics_cases:
  "save_daily_metrics rt df s = (res, s') \<Longrightarrow>
   (res \<noteq> None \<and> s' = s) \<or> (res = None \<and> (\<exists>rs. metric_records rt df = Some rs \<and> s' = write_metrics rs s))"
  unfolding save_daily_metrics_def transaction_def
  by (auto split: if_splits option.splits sum.splits dest!: insert_metrics_Inr simp: write_metrics_def[symmetric])

lemma valid_record_executable: "valid_metric_record rt r \<Longrightarrow> executable_record rt r"
  by (cases r) (simp_all add: valid_metric_record_def executable_record_def dict_get_def)

lemma save_daily_metrics_ok:
  assumes "reliable rt" "daily_metrics s \<noteq> None" "valid_batch rt df"
  shows "\<exists>rs. metric_records rt df = Some rs \<and> list_all (valid_metric_record rt) rs
           \<and> save_daily_metrics rt df s = (None, write_metrics rs s)"
proof -
  from assms(3) obtain rs where rs: "metric_records rt df = Some rs"
    and v: "list_all (valid_metric_record rt) rs"
    by (auto simp: valid_batch_def split: option.splits)
  have b: "list_all (executable_record rt) rs"
    using v by (auto simp: list_all_iff valid_record_executable)
  obtain s' where i: "insert_metrics rt 0 rs s = Inr s'"
    using insert_metrics_ok[OF _ assms(2) b, of 0] assms(1) by (auto simp: reliable_def)
  have "save_daily_metrics rt df s = (None, write_metrics rs s)"
    using assms(1) rs i insert_metrics_Inr[OF i]
    by (auto simp: save_daily_metrics_def transaction_def reliable_def write_metrics_def option.map_ident)
  then show ?thesis using rs v by blast
qed

lemma relation_write_metrics:
  "relation (daily_metrics (write_metrics rs s)) =
   map_option (fold (upsert dm_key) (map metric_of rs)) (relation (daily_metrics s))"
  by (simp add: write_metrics_def relation_def option.map_comp o_def relation_fold_insert)

lemma write_metrics_frame [simp]:
  "tickers (write_metrics rs s) = tickers s" "signal_events (write_metrics rs s) = signal_events s"
  "(daily_metrics (write_metrics rs s) = None) = (daily_metrics s = None)"
  by (simp_all add: write_metrics_def)

lemma valid_metric_record_key:
  "valid_metric_record rt r \<Longrightarrow> dm_key (metric_of r) = Some (dict_get r ''ticker'', dict_get r ''date'')"
  by (cases "dict_get r ''ticker''"; cases "dict_get r ''date''") (simp_all add: valid_metric_record_def dm_key_def metric_of_def)

lemma valid_records_keyed:
  "list_all (valid_metric_record rt) rs \<Longrightarrow> \<forall>m \<in> set (map metric_of rs). dm_key m \<noteq> None"
  by (auto simp: list_all_iff valid_metric_record_key)

lemma constraints_write_metrics:
  assumes "list_all (valid_metric_record rt) rs" "constraints_hold s"
  shows "constraints_hold (write_metrics rs s)"
proof -
  have "table_unique dm_key (daily_metrics (write_metrics rs s))"
  proof (cases "daily_metrics s")
    case None
    then show ?thesis by (simp add: write_metrics_def table_unique_def)
  next
    case (Some tbl)
    have "unique_keys dm_key (map snd tbl)"
      using assms(2) Some by (simp add: constraints_hold_def table_unique_def)
    from unique_keys_fold_upsert[OF valid_records_keyed[OF assms(1)] this]
    show ?thesis using Some by (simp add: write_metrics_def table_unique_def relation_fold_insert)
  qed
  then show ?thesis using assms(2) by (simp add: constraints_hold_def)
qed

subsection \<open>Replaying a batch\<close>

text \<open>
  Claim C1. With a storage engine that does not fail, an existing \<open>daily_metrics\<close> table
  and a valid batch (the ticker is a column of the frame, and the driver of the runtime
  binds every value), whatever the pandas of the runtime, \<open>save_daily_metrics\<close> returns
  without error the first time and on the replay, the replay leaves the three relations
  (the rows without their ids, which the replay assigns anew) as the first call left them,
  and the unique constraints still hold: no key has two rows.
\<close>

theorem save_daily_metrics_idempotent:
  assumes "reliable rt" and "daily_metrics s \<noteq> None" and "constraints_hold s"
    and "valid_batch rt df"
  shows "fst (save_daily_metrics rt df s) = None
       \<and> fst (save_daily_metrics rt df (snd (save_daily_metrics rt df s))) = None
       \<and> observable (snd (save_daily_metrics rt df (snd (save_daily_metrics rt df s))))
           = observable (snd (save_daily_metrics rt df s))
       \<and> constraints_hold (snd (save_daily_metrics rt df (snd (save_daily_metrics rt df s))))"
proof -
  obtain rs where rs: "metric_records rt df = Some rs" and v: "list_all (valid_metric_record rt) rs"
    and once: "save_daily_metrics rt df s = (None, write_metrics rs s)"
    using save_daily_metrics_ok[OF assms(1,2,4)] by blast
  have ex: "daily_metrics (write_metrics rs s) \<noteq> None" using assms(2) by simp
  obtain rs' where "metric_records rt df = Some rs'"
    and "save_daily_metrics rt df (write_metrics rs s) = (None, write_metrics rs' (write_metrics rs s))"
    using save_daily_metrics_ok[OF assms(1) ex assms(4)] by blast
  with rs have twice: "save_daily_metrics rt df (write_metrics rs s) = (None, write_metrics rs (write_metrics rs s))"
    by simp
  have "relation (daily_metrics (write_metrics rs (write_metrics rs s))) = relation (daily_metrics (write_metrics rs s))"
    by (cases "relation (daily_metrics s)")
       (simp_all add: relation_write_metrics fold_upsert_twice[OF valid_records_keyed[OF v]])
  then have obs: "observable (write_metrics rs (write_metrics rs s)) = observable (write_metrics rs s)"
    by (simp add: observable_def)
  have "constraints_hold (write_metrics rs (write_metrics rs s))"
    by (rule constraints_write_metrics[OF v constraints_write_metrics[OF v assms(3)]])
  then show ?thesis using once twice obs by simp
qed

lemma demo_records:
  "metric_records demo_runtime demo_frame =
     Some [[(''ticker'', VStr ''ACME''), (''date'', VDate (2024, 1, 2)), (''close'', VFloat 10)],
           [(''ticker'', VStr ''ACME''), (''date'', VDate (2024, 1, 3)), (''close'', VFloat 11)]]"
  by (simp add: metric_records_def demo_runtime_def demo_frame_def column_values_def cell_def
      dict_get_def assign_column_def set_cell_def select_columns_def metric_columns_def to_dict_records_def)

lemma init_empty: "init_db empty_db = \<lparr>tickers = Some [], daily_metrics = Some [], signal_events = Some []\<rparr>"
  by (simp add: init_db_def empty_db_def create_table_def)

lemma reliable_demo: "reliable demo_runtime"
  by (simp add: reliable_def demo_runtime_def)

lemma constraints_init: "constraints_hold (init_db empty_db)"
  by (simp add: init_empty constraints_hold_def table_unique_def unique_keys_def)

lemma wf_demo: "wf_frame demo_frame"
  by (simp add: wf_frame_def demo_frame_def)

lemma demo_runtime_storage:
  "connect_fails demo_runtime = False" "execute_fails demo_runtime k = False"
  "commit_fails demo_runtime = False" "can_bind demo_runtime v = bindable v"
  "keeps_empty_records demo_runtime = False"
  by (simp_all add: demo_runtime_def)

lemma valid_demo: "valid_batch demo_runtime demo_frame"
  by (simp add: valid_batch_def wf_demo demo_records valid_metric_record_def dict_get_def
      demo_runtime_storage)

lemma demo_saved_once:
  "save_daily_metrics demo_runtime demo_frame (init_db empty_db) =
     (None, \<lparr>tickers = Some [],
        daily_metrics = Some
          [(1, acme_row (2024, 1, 2) 10),
           (2, acme_row (2024, 1, 3) 11)],
        signal_events = Some []\<rparr>)"
  by (simp add: save_daily_metrics_def demo_records transaction_def execute_metric_def init_empty
      insert_or_replace_def next_rowid_def conflicts_def demo_runtime_storage
      dm_key_def metric_of_def dict_get_def acme_row_def)

text \<open>
  The theorem on the sample frame, saved twice into a freshly initialised store: the
  relation holds the two rows of the frame, with their closes and without the column
  \<open>note\<close>.
\<close>

theorem save_daily_metrics_idempotent_witness:
  "reliable demo_runtime \<and> daily_metrics (init_db empty_db) \<noteq> None
   \<and> constraints_hold (init_db empty_db) \<and> valid_batch demo_runtime demo_frame
   \<and> fst (save_daily_metrics demo_runtime demo_frame
            (snd (save_daily_metrics demo_runtime demo_frame (init_db empty_db)))) = None
   \<and> observable (snd (save_daily_metrics demo_runtime demo_frame
            (snd (save_daily_metrics demo_runtime demo_frame (init_db empty_db)))))
       = (Some [],
          Some [acme_row (2024, 1, 2) 10,
                acme_row (2024, 1, 3) 11],
          Some [])"
proof -
  have t: "daily_metrics (init_db empty_db) \<noteq> None"
    by (simp add: init_empty)
  have o: "observable (snd (save_daily_metrics demo_runtime demo_frame (init_db empty_db)))
       = (Some [],
          Some [acme_row (2024, 1, 2) 10,
                acme_row (2024, 1, 3) 11],
          Some [])"
    by (simp add: demo_saved_once observable_def relation_def)
  from save_daily_metrics_idempotent[OF reliable_demo t constraints_init valid_demo]
  show ?thesis
    using reliable_demo t constraints_init valid_demo o by simp
qed

text \<open>
  Two remarks on the replay. The rows a replay replaces get new ids, so the tables
  themselves differ where the relations agree.
\<close>

lemma replay_renumbers:
  "daily_metrics (snd (save_daily_metrics demo_runtime demo_frame
      (snd (save_daily_metrics demo_runtime demo_frame (init_db empty_db)))))
   = Some
      [(3, acme_row (2024, 1, 2) 10),
       (4, acme_row (2024, 1, 3) 11)]"
  unfolding demo_saved_once snd_conv
  by (simp add: save_daily_metrics_def demo_records transaction_def
      execute_metric_def insert_or_replace_def next_rowid_def conflicts_def demo_runtime_storage
      dm_key_def metric_of_def dict_get_def acme_row_def)

text \<open>
  And a batch that is not valid because its frame has no column \<open>ticker\<close> is written
  with a NULL ticker, conflicts with nothing, and is stored once more by every replay.
\<close>

lemma keyless_records:
  "metric_records demo_runtime keyless_frame = Some [[(''date'', VDate (2024, 1, 2)), (''close'', VFloat 10)]]"
  by (simp add: metric_records_def demo_runtime_def keyless_frame_def column_values_def cell_def
      dict_get_def assign_column_def set_cell_def select_columns_def metric_columns_def to_dict_records_def)

lemma keyless_saved_once:
  "save_daily_metrics demo_runtime keyless_frame (init_db empty_db) =
     (None, \<lparr>tickers = Some [],
        daily_metrics = Some [(1, (acme_row (2024, 1, 2) 10)\<lparr>dm_ticker := VNull\<rparr>)],
        signal_events = Some []\<rparr>)"
  by (simp add: save_daily_metrics_def keyless_records transaction_def init_empty
      execute_metric_def insert_or_replace_def next_rowid_def conflicts_def demo_runtime_storage
      dm_key_def metric_of_def dict_get_def acme_row_def)

lemma keyless_batch_duplicates:
  "relation (daily_metrics (snd (save_daily_metrics demo_runtime keyless_frame
      (snd (save_daily_metrics demo_runtime keyless_frame (init_db empty_db))))))
   = Some [(acme_row (2024, 1, 2) 10)\<lparr>dm_ticker := VNull\<rparr>,
           (acme_row (2024, 1, 2) 10)\<lparr>dm_ticker := VNull\<rparr>]"
  unfolding keyless_saved_once snd_conv
  by (simp add: save_daily_metrics_def keyless_records transaction_def relation_def
      execute_metric_def insert_or_replace_def next_rowid_def conflicts_def demo_runtime_storage
      dm_key_def metric_of_def dict_get_def acme_row_def)

subsection \<open>Replacing a row\<close>

lemma save_daily_metrics_keeps_table:
  "daily_metrics s \<noteq> None \<Longrightarrow> daily_metrics (snd (save_daily_metrics rt df s)) \<noteq> None"
  using save_daily_metrics_cases[of rt df s "fst (save_daily_metrics rt df s)" "snd (save_daily_metrics rt df s)"]
  by (auto simp: write_metrics_def)

lemma keyed_rows_fold_upsert:
  assumes "\<forall>m \<in> set ms. key m \<noteq> None" and "\<exists>m \<in> set ms. key m = k"
  shows "filter (\<lambda>x. key x = k) (fold (upsert key) ms xs) = [last (filter (\<lambda>x. key x = k) ms)]"
proof -
  have "filter (\<lambda>x. key x = k) (filter (\<lambda>x. key x \<notin> key ` set ms) xs) = []"
    using assms(2) by (auto simp: filter_empty_conv)
  then show ?thesis
    by (simp add: fold_upsert[OF assms(1)] keyed_last_wins[OF assms(2)])
qed

lemma replaced_row:
  assumes "reliable rt" and "daily_metrics s \<noteq> None" and "valid_batch rt df2"
    and "metric_records rt df2 = Some rs2"
    and "filter (\<lambda>r. dict_get r ''ticker'' = t \<and> dict_get r ''date'' = d) rs2 \<noteq> []"
  shows "\<exists>stored. relation (daily_metrics (snd (save_daily_metrics rt df2 (snd (save_daily_metrics rt df1 s)))))
             = Some stored
         \<and> filter (\<lambda>m. dm_ticker m = t \<and> dm_date m = d) stored
             = [metric_of (last (filter (\<lambda>r. dict_get r ''ticker'' = t \<and> dict_get r ''date'' = d) rs2))]"
proof -
  let ?s1 = "snd (save_daily_metrics rt df1 s)"
  let ?P = "\<lambda>r. dict_get r ''ticker'' = t \<and> dict_get r ''date'' = d"
  have ex: "daily_metrics ?s1 \<noteq> None"
    using assms(2) by (rule save_daily_metrics_keeps_table)
  then obtain tbl where tbl: "daily_metrics ?s1 = Some tbl" by auto
  obtain rs where "metric_records rt df2 = Some rs" and "list_all (valid_metric_record rt) rs"
    and "save_daily_metrics rt df2 ?s1 = (None, write_metrics rs ?s1)"
    using save_daily_metrics_ok[OF assms(1) ex assms(3)] by blast
  with assms(4) have v: "list_all (valid_metric_record rt) rs2"
    and sv: "save_daily_metrics rt df2 ?s1 = (None, write_metrics rs2 ?s1)" by simp_all
  have key: "dm_key (metric_of r) = Some (t, d) \<longleftrightarrow> ?P r" if "r \<in> set rs2" for r
    using v that by (auto simp: list_all_iff valid_metric_record_key)
  obtain r0 where r0: "r0 \<in> set rs2" "?P r0"
    using assms(5) by (auto simp: filter_empty_conv)
  have td: "t \<noteq> VNull" "d \<noteq> VNull"
    using v r0 by (auto simp: list_all_iff valid_metric_record_def)
  have sel: "(dm_ticker m = t \<and> dm_date m = d) \<longleftrightarrow> dm_key m = Some (t, d)" for m
    using td by (auto simp: dm_key_def)
  let ?ms = "map metric_of rs2"
  have hit: "\<exists>m \<in> set ?ms. dm_key m = Some (t, d)"
    using r0 key by auto
  have f: "filter (\<lambda>x. dm_key x = Some (t, d)) ?ms = map metric_of (filter ?P rs2)"
    using key by (simp add: filter_map o_def cong: filter_cong)
  have "filter (\<lambda>m. dm_key m = Some (t, d)) (fold (upsert dm_key) ?ms (map snd tbl))
        = [metric_of (last (filter ?P rs2))]"
    using keyed_rows_fold_upsert[OF valid_records_keyed[OF v] hit, of "map snd tbl"] assms(5)
    by (simp add: f last_map)
  moreover have "relation (daily_metrics ?s1) = Some (map snd tbl)"
    using tbl by (simp add: relation_def)
  then have "relation (daily_metrics (write_metrics rs2 ?s1))
      = Some (fold (upsert dm_key) ?ms (map snd tbl))"
    by (simp add: relation_write_metrics)
  ultimately show ?thesis
    using sv by (simp add: sel)
qed

text \<open>
  Claim C2. Whatever a first call wrote, once a second call with a valid batch that has a
  record \<open>r\<close> keyed \<open>(t, d)\<close> has returned (the last such record, when the batch has
  several), the relation holds exactly one row with ticker \<open>t\<close> and date \<open>d\<close>, and each
  payload column of that row holds what \<open>r\<close> gives for it, NULL when \<open>r\<close> does not give
  it: nothing of the replaced row is kept.
\<close>

theorem save_daily_metrics_replaces:
  assumes "reliable rt" and "daily_metrics s \<noteq> None" and "valid_batch rt df2"
    and "metric_records rt df2 = Some rs2"
    and "filter (\<lambda>r. dict_get r ''ticker'' = t \<and> dict_get r ''date'' = d) rs2 \<noteq> []"
    and "last (filter (\<lambda>r. dict_get r ''ticker'' = t \<and> dict_get r ''date'' = d) rs2) = r"
  shows "\<exists>stored. relation (daily_metrics (snd (save_daily_metrics rt df2 (snd (save_daily_metrics rt df1 s)))))
             = Some stored
         \<and> filter (\<lambda>m. dm_ticker m = t \<and> dm_date m = d) stored
             = [\<lparr>dm_ticker = t, dm_date = d,
                 dm_open = dict_get r ''open'', dm_high = dict_get r ''high'',
                 dm_low = dict_get r ''low'', dm_close = dict_get r ''close'',
                 dm_volume = dict_get r ''volume'', dm_sma50 = dict_get r ''sma50'',
                 dm_sma200 = dict_get r ''sma200'',
                 dm_price_to_book = dict_get r ''price_to_book'',
                 dm_bvps = dict_get r ''bvps'',
                 dm_enterprise_value = dict_get r ''enterprise_value''\<rparr>]"
proof -
  have "r \<in> set (filter (\<lambda>r. dict_get r ''ticker'' = t \<and> dict_get r ''date'' = d) rs2)"
    using assms(5,6) last_in_set by blast
  then have k: "dict_get r ''ticker'' = t" "dict_get r ''date'' = d"
    by simp_all
  show ?thesis
    using replaced_row[OF assms(1-5), of df1]
    unfolding assms(6) by (simp add: metric_of_def k)
qed

lemma demo_records2:
  "metric_records demo_runtime demo_frame2 =
     Some [[(''ticker'', VStr ''ACME''), (''date'', VDate (2024, 1, 2)), (''close'', VFloat 12)]]"
  by (simp add: metric_records_def demo_runtime_def demo_frame2_def column_values_def cell_def
      dict_get_def assign_column_def set_cell_def select_columns_def metric_columns_def to_dict_records_def)

lemma valid_demo2: "valid_batch demo_runtime demo_frame2"
proof -
  have "wf_frame demo_frame2"
    by (simp add: wf_frame_def demo_frame2_def)
  then show ?thesis
    by (simp add: valid_batch_def demo_records2 valid_metric_record_def dict_get_def
        demo_runtime_storage)
qed

lemma demo_saved_then_replaced:
  "relation (daily_metrics (snd (save_daily_metrics demo_runtime demo_frame2
      (snd (save_daily_metrics demo_runtime demo_frame (init_db empty_db))))))
   = Some [acme_row (2024, 1, 3) 11, acme_row (2024, 1, 2) 12]"
  unfolding demo_saved_once snd_conv
  by (simp add: save_daily_metrics_def demo_records2 transaction_def relation_def
      execute_metric_def insert_or_replace_def next_rowid_def conflicts_def demo_runtime_storage
      dm_key_def metric_of_def dict_get_def acme_row_def)

text \<open>
  The theorem on the sample frames: the row of 2 January written with close 10 is
  replaced by the one with close 12, the only row of that key; the row of 3 January stays.
\<close>

theorem save_daily_metrics_replaces_witness:
  "reliable demo_runtime \<and> daily_metrics (init_db empty_db) \<noteq> None
   \<and> valid_batch demo_runtime demo_frame2
   \<and> relation (daily_metrics (snd (save_daily_metrics demo_runtime demo_frame2
          (snd (save_daily_metrics demo_runtime demo_frame (init_db empty_db))))))
       = Some [acme_row (2024, 1, 3) 11, acme_row (2024, 1, 2) 12]
   \<and> filter (\<lambda>m. dm_ticker m = VStr ''ACME'' \<and> dm_date m = VDate (2024, 1, 2))
         [acme_row (2024, 1, 3) 11, acme_row (2024, 1, 2) 12]
       = [\<lparr>dm_ticker = VStr ''ACME'', dm_date = VDate (2024, 1, 2), dm_open = VNull,
           dm_high = VNull, dm_low = VNull, dm_close = VFloat 12, dm_volume = VNull,
           dm_sma50 = VNull, dm_sma200 = VNull, dm_price_to_book = VNull, dm_bvps = VNull,
           dm_enterprise_value = VNull\<rparr>]"
proof -
  have t: "daily_metrics (init_db empty_db) \<noteq> None"
    by (simp add: init_empty)
  let ?r = "[(''ticker'', VStr ''ACME''), (''date'', VDate (2024, 1, 2)), (''close'', VFloat 12)]"
  have n: "filter (\<lambda>r. dict_get r ''ticker'' = VStr ''ACME'' \<and> dict_get r ''date'' = VDate (2024, 1, 2))
             [?r] \<noteq> []"
    and l: "last (filter (\<lambda>r. dict_get r ''ticker'' = VStr ''ACME'' \<and> dict_get r ''date'' = VDate (2024, 1, 2))
             [?r]) = ?r"
    by (simp_all add: dict_get_def)
  from save_daily_metrics_replaces[OF reliable_demo t valid_demo2 demo_records2 n l, of demo_frame]
  have "filter (\<lambda>m. dm_ticker m = VStr ''ACME'' \<and> dm_date m = VDate (2024, 1, 2))
         [acme_row (2024, 1, 3) 11, acme_row (2024, 1, 2) 12]
       = [\<lparr>dm_ticker = VStr ''ACME'', dm_date = VDate (2024, 1, 2), dm_open = VNull,
           dm_high = VNull, dm_low = VNull, dm_close = VFloat 12, dm_volume = VNull,
           dm_sma50 = VNull, dm_sma200 = VNull, dm_price_to_book = VNull, dm_bvps = VNull,
           dm_enterprise_value = VNull\<rparr>]"
    unfolding demo_saved_then_replaced by (simp add: dict_get_def)
  then show ?thesis
    using reliable_demo t valid_demo2 demo_saved_then_replaced by simp
qed

section \<open>Transactions\<close>

lemma insert_signals_Inr:
  "insert_signals rt k ticker evs s = Inr s' \<Longrightarrow> s' = write_signals rt ticker evs s"
proof (induction evs arbitrary: k s)
  case Nil
  then show ?case by (simp add: write_signals_def option.map_id0 id_def[symmetric])
next
  case (Cons ev evs)
  then obtain s1 where e: "execute_signal rt k ticker ev s = Inr s1"
    and i: "insert_signals rt (Suc k) ticker evs s1 = Inr s'"
    by (auto split: sum.splits)
  from e obtain tbl where t: "signal_events s = Some tbl"
    and s1: "s1 = s\<lparr>signal_events := Some (insert_or_replace se_key (signal_of rt ticker ev) tbl)\<rparr>"
    by (auto simp: execute_signal_def split: option.splits if_splits)
  show ?case using Cons.IH[OF i] t s1 by (simp add: write_signals_def)
qed

lemma insert_signals_ok:
  "execute_fails rt = (\<lambda>k. False) \<Longrightarrow> signal_events s \<noteq> None \<Longrightarrow>
   list_all (bindable_event rt ticker) evs \<Longrightarrow> \<exists>s'. insert_signals rt k ticker evs s = Inr s'"
proof (induction evs arbitrary: k s)
  case Nil
  then show ?case by simp
next
  case (Cons ev evs)
  then obtain tbl where t: "signal_events s = Some tbl" by auto
  let ?s1 = "s\<lparr>signal_events := Some (insert_or_replace se_key (signal_of rt ticker ev) tbl)\<rparr>"
  have e: "execute_signal rt k ticker ev s = Inr ?s1"
    using Cons.prems t by (simp add: execute_signal_def)
  have "\<exists>s'. insert_signals rt (Suc k) ticker evs ?s1 = Inr s'"
    using Cons.prems by (intro Cons.IH) simp_all
  then show ?case using e by simp
qed

lemma save_signal_events_cases:
  "save_signal_events rt ticker evs s = (res, s') \<Longrightarrow>
   (res \<noteq> None \<and> s' = s) \<or> (res = None \<and> s' = write_signals rt ticker evs s)"
  unfolding save_signal_events_def transaction_def
  by (auto split: if_splits sum.splits dest!: insert_signals_Inr)

lemma save_signal_events_commits:
  assumes "reliable rt" "signal_events s \<noteq> None" "list_all (bindable_event rt ticker) evs"
  shows "save_signal_events rt ticker evs s = (None, write_signals rt ticker evs s)"
proof -
  obtain s' where i: "insert_signals rt 0 ticker evs s = Inr s'"
    using insert_signals_ok[OF _ assms(2,3), of 0] assms(1) by (auto simp: reliable_def)
  show ?thesis
    using assms(1) i insert_signals_Inr[OF i]
    by (simp add: save_signal_events_def transaction_def reliable_def)
qed

lemma save_daily_metrics_commits:
  assumes "reliable rt" "daily_metrics s \<noteq> None" "metric_records rt df = Some rs"
    and "list_all (executable_record rt) rs"
  shows "save_daily_metrics rt df s = (None, write_metrics rs s)"
proof -
  obtain s' where i: "insert_metrics rt 0 rs s = Inr s'"
    using insert_metrics_ok[OF _ assms(2,4), of 0] assms(1) by (auto simp: reliable_def)
  show ?thesis
    using assms(1,3) i insert_metrics_Inr[OF i]
    by (auto simp: save_daily_metrics_def transaction_def reliable_def write_metrics_def[symmetric])
qed

lemma event_without_date_committed:
  assumes "reliable rt" "signal_events s = Some tbl" "bindable_event rt ticker ev"
    and "map_of ev ''date'' = None"
  shows "save_signal_events rt ticker [ev] s =
     (None, s\<lparr>signal_events := Some (tbl @
        [(next_rowid tbl,
          \<lparr>se_ticker = VStr ticker, se_date = VNull,
           se_signal_type = dict_get ev ''signal_type'',
           se_meta = VStr (py_str rt (dict_get ev ''meta''))\<rparr>)])\<rparr>)"
  using assms
  by (simp add: save_signal_events_def transaction_def execute_signal_def reliable_def
      insert_or_replace_def conflicts_def se_key_def signal_of_def dict_get_def)

text \<open>
  Claim C3, as the code has it. Each call of \<open>save_daily_metrics\<close> and of
  \<open>save_signal_events\<close> is all or nothing: when the call raises (the date column cannot be
  converted, a statement names no column, the table is missing, a value cannot be bound,
  the storage engine fails) the store is the one before the call; when it returns, the
  store is the one in which every record of the batch has been written, in order. A batch
  of records the driver can execute, written to an existing table by a storage engine that
  does not fail, is committed. For \<open>save_signal_events\<close> a missing key field is no
  failure: an event without \<open>date\<close>, whose other fields and \<open>None\<close> the driver binds, is
  added with a NULL date and replaces no row.
\<close>

theorem batch_atomic:
  "(fst (save_daily_metrics rt df s) \<noteq> None \<longrightarrow> snd (save_daily_metrics rt df s) = s)
   \<and> (fst (save_daily_metrics rt df s) = None \<longrightarrow>
        (\<exists>rs. metric_records rt df = Some rs \<and> snd (save_daily_metrics rt df s) = write_metrics rs s))
   \<and> (reliable rt \<and> daily_metrics s \<noteq> None \<and> metric_records rt df = Some rs
        \<and> list_all (executable_record rt) rs \<longrightarrow>
        save_daily_metrics rt df s = (None, write_metrics rs s))
   \<and> (fst (save_signal_events rt ticker evs s) \<noteq> None \<longrightarrow> snd (save_signal_events rt ticker evs s) = s)
   \<and> (fst (save_signal_events rt ticker evs s) = None \<longrightarrow>
        snd (save_signal_events rt ticker evs s) = write_signals rt ticker evs s)
   \<and> (reliable rt \<and> signal_events s \<noteq> None \<and> list_all (bindable_event rt ticker) evs \<longrightarrow>
        save_signal_events rt ticker evs s = (None, write_signals rt ticker evs s))
   \<and> (reliable rt \<and> signal_events s = Some tbl \<and> bindable_event rt ticker ev
        \<and> map_of ev ''date'' = None \<longrightarrow>
        save_signal_events rt ticker [ev] s =
          (None, s\<lparr>signal_events := Some (tbl @
             [(next_rowid tbl,
               \<lparr>se_ticker = VStr ticker, se_date = VNull,
                se_signal_type = dict_get ev ''signal_type'',
                se_meta = VStr (py_str rt (dict_get ev ''meta''))\<rparr>)])\<rparr>))"
  using save_daily_metrics_cases[of rt df s "fst (save_daily_metrics rt df s)" "snd (save_daily_metrics rt df s)"]
    save_signal_events_cases[of rt ticker evs s "fst (save_signal_events rt ticker evs s)" "snd (save_signal_events rt ticker evs s)"]
    save_daily_metrics_commits[of rt s df rs] save_signal_events_commits[of rt s ticker evs]
    event_without_date_committed[of rt s tbl ticker ev]
  by auto

lemma save_daily_metrics_frame:
  "signal_events (snd (save_daily_metrics rt df s)) = signal_events s"
  "tickers (snd (save_daily_metrics rt df s)) = tickers s"
  using save_daily_metrics_cases[of rt df s "fst (save_daily_metrics rt df s)" "snd (save_daily_metrics rt df s)"]
  by auto

lemma save_signal_events_frame:
  "daily_metrics (snd (save_signal_events rt ticker evs s)) = daily_metrics s"
  "tickers (snd (save_signal_events rt ticker evs s)) = tickers s"
  using save_signal_events_cases[of rt ticker evs s "fst (save_signal_events rt ticker evs s)" "snd (save_signal_events rt ticker evs s)"]
  by (auto simp: write_signals_def)

text \<open>
  Claim C10. For every input, \<open>save_signal_events\<close> leaves the tables \<open>daily_metrics\<close> and
  \<open>tickers\<close> as they were, and \<open>save_daily_metrics\<close> leaves the tables \<open>signal_events\<close>
  and \<open>tickers\<close> as they were.
\<close>

theorem store_frame:
  "daily_metrics (snd (save_signal_events rt ticker evs s)) = daily_metrics s
   \<and> tickers (snd (save_signal_events rt ticker evs s)) = tickers s
   \<and> signal_events (snd (save_daily_metrics rt df s)) = signal_events s
   \<and> tickers (snd (save_daily_metrics rt df s)) = tickers s"
  by (simp add: save_daily_metrics_frame save_signal_events_frame)

lemma flaky_storage:
  "connect_fails flaky_runtime = False" "execute_fails flaky_runtime k = (k = 1)"
  "commit_fails flaky_runtime = False" "can_bind flaky_runtime v = bindable v"
  by (simp_all add: flaky_runtime_def demo_runtime_def)

lemma flaky_records: "metric_records flaky_runtime df = metric_records demo_runtime df"
  by (simp add: metric_records_def to_dict_records_def flaky_runtime_def split: option.splits)

lemma flaky_fails:
  "fst (save_daily_metrics flaky_runtime demo_frame (init_db empty_db)) = Some StorageError"
  by (simp add: save_daily_metrics_def flaky_records demo_records transaction_def execute_metric_def
      init_empty flaky_storage)

lemma demo_events_bindable: "list_all (bindable_event demo_runtime ''ACME'') demo_events"
  by (simp add: demo_events_def event_of_def bindable_event_def dict_get_def demo_runtime_def)

lemma dateless_event_bindable:
  "bindable_event demo_runtime ''ACME'' [(''signal_type'', VStr ''golden_cross'')]"
  by (simp add: bindable_event_def dict_get_def demo_runtime_def)

text \<open>
  The theorem on sample inputs: the storage engine fails at the second record of the
  sample frame and nothing of the batch is kept, not even the first record; the sample
  event is committed; an event without \<open>date\<close> is added to an empty table with a NULL
  date.
\<close>

theorem batch_atomic_witness:
  "fst (save_daily_metrics flaky_runtime demo_frame (init_db empty_db)) = Some StorageError
   \<and> snd (save_daily_metrics flaky_runtime demo_frame (init_db empty_db)) = init_db empty_db
   \<and> reliable demo_runtime \<and> signal_events (init_db empty_db) = Some []
   \<and> list_all (bindable_event demo_runtime ''ACME'') demo_events
   \<and> save_signal_events demo_runtime ''ACME'' demo_events (init_db empty_db)
       = (None, write_signals demo_runtime ''ACME'' demo_events (init_db empty_db))
   \<and> bindable_event demo_runtime ''ACME'' [(''signal_type'', VStr ''golden_cross'')]
   \<and> map_of [(''signal_type'', VStr ''golden_cross'')] ''date'' = None
   \<and> snd (save_signal_events demo_runtime ''ACME'' [[(''signal_type'', VStr ''golden_cross'')]]
          (init_db empty_db))
       = \<lparr>tickers = Some [], daily_metrics = Some [],
          signal_events = Some [(1, \<lparr>se_ticker = VStr ''ACME'', se_date = VNull,
              se_signal_type = VStr ''golden_cross'', se_meta = VStr ''None''\<rparr>)]\<rparr>"
proof -
  have t: "signal_events (init_db empty_db) = Some []"
    by (simp add: init_empty)
  have m: "map_of [(''signal_type'', VStr ''golden_cross'')] ''date'' = None"
    by simp
  from batch_atomic[where rt = flaky_runtime and df = demo_frame and s = "init_db empty_db"
      and rs = "[]" and ticker = "''ACME''" and evs = "[]" and tbl = "[]" and ev = "[]"]
  have a: "snd (save_daily_metrics flaky_runtime demo_frame (init_db empty_db)) = init_db empty_db"
    using flaky_fails by simp
  from batch_atomic[of demo_runtime _ "init_db empty_db" _ "''ACME''" demo_events]
  have b: "save_signal_events demo_runtime ''ACME'' demo_events (init_db empty_db)
       = (None, write_signals demo_runtime ''ACME'' demo_events (init_db empty_db))"
    using reliable_demo t demo_events_bindable by simp
  note last_part = batch_atomic[where rt = demo_runtime and s = "init_db empty_db"
      and ticker = "''ACME''" and tbl = "[]" and ev = "[(''signal_type'', VStr ''golden_cross'')]"
      and df = demo_frame and rs = "[]" and evs = "[]",
      THEN conjunct2, THEN conjunct2, THEN conjunct2, THEN conjunct2, THEN conjunct2,
      THEN conjunct2, THEN mp]
  have "save_signal_events demo_runtime ''ACME'' [[(''signal_type'', VStr ''golden_cross'')]]
          (init_db empty_db)
       = (None, (init_db empty_db)\<lparr>signal_events := Some ([] @
             [(next_rowid ([] :: SignalEvent table),
               \<lparr>se_ticker = VStr ''ACME'', se_date = VNull,
                se_signal_type = dict_get [(''signal_type'', VStr ''golden_cross'')] ''signal_type'',
                se_meta = VStr (py_str demo_runtime
                   (dict_get [(''signal_type'', VStr ''golden_cross'')] ''meta''))\<rparr>)])\<rparr>)"
    by (rule last_part) (simp add: reliable_demo t dateless_event_bindable)
  then have c: "snd (save_signal_events demo_runtime ''ACME'' [[(''signal_type'', VStr ''golden_cross'')]]
          (init_db empty_db))
       = \<lparr>tickers = Some [], daily_metrics = Some [],
          signal_events = Some [(1, \<lparr>se_ticker = VStr ''ACME'', se_date = VNull,
              se_signal_type = VStr ''golden_cross'', se_meta = VStr ''None''\<rparr>)]\<rparr>"
    by (simp add: init_empty next_rowid_def dict_get_def demo_runtime_def)
  show ?thesis
    using flaky_fails a reliable_demo t demo_events_bindable b dateless_event_bindable m c
    by simp
qed

text \<open>
  Claim C3 as stated fails: an event without the key field \<open>date\<close> does not make the
  batch fail. The call returns and the event is committed with a NULL date.
\<close>

theorem missing_key_committed:
  "save_signal_events demo_runtime ''ACME'' [[(''signal_type'', VStr ''golden_cross'')]] (init_db empty_db)
     = (None, \<lparr>tickers = Some [], daily_metrics = Some [],
               signal_events = Some [(1, \<lparr>se_ticker = VStr ''ACME'', se_date = VNull,
                   se_signal_type = VStr ''golden_cross'', se_meta = VStr ''None''\<rparr>)]\<rparr>)"
  by (simp add: save_signal_events_def transaction_def execute_signal_def init_empty
      demo_runtime_storage insert_or_replace_def next_rowid_def conflicts_def se_key_def
      signal_of_def dict_get_def bindable_event_def demo_runtime_def)

text \<open>The theorem on the sample inputs, written to a freshly initialised store.\<close>

theorem store_frame_witness:
  "daily_metrics (snd (save_signal_events demo_runtime ''ACME'' demo_events (init_db empty_db))) = Some []
   \<and> tickers (snd (save_signal_events demo_runtime ''ACME'' demo_events (init_db empty_db))) = Some []
   \<and> signal_events (snd (save_daily_metrics demo_runtime demo_frame (init_db empty_db))) = Some []
   \<and> tickers (snd (save_daily_metrics demo_runtime demo_frame (init_db empty_db))) = Some []"
  using store_frame[of demo_runtime "''ACME''" demo_events "init_db empty_db" demo_frame]
  by (simp add: init_empty)

section \<open>The pipeline and the table of tickers\<close>

lemma run_unfold:
  "\<not> config_fails h \<Longrightarrow> \<not> (initdb \<and> connect_fails rt1) \<Longrightarrow>
   run h rt1 rt2 ticker initdb up s =
     (case up of
        None \<Rightarrow> (Some UpstreamError, if initdb then init_db s else s)
      | Some u \<Rightarrow>
          (case save_daily_metrics rt1 (processed u) (if initdb then init_db s else s) of
             (Some e, s2) \<Rightarrow> (Some e, s2)
           | (None, s2) \<Rightarrow>
               (case save_signal_events rt2 ticker
                       (map (event_of ''golden_cross'') (golden_dates u)
                        @ map (event_of ''death_cross'') (death_dates u)) s2 of
                  (Some e, s3) \<Rightarrow> (Some e, s3)
                | (None, s3) \<Rightarrow>
                    if export_fails h
                       \<or> \<not> list_all (json_encodes h) (golden_dates u @ death_dates u)
                    then (Some ExportError, s3)
                    else (None, s3))))"
  by (cases initdb; cases "connect_fails rt1") (simp_all add: run_def Let_def split: option.splits)

lemma snd_case_outcome:
  "snd (case p of (Some e, s3) \<Rightarrow> (Some e, s3) | (None, s3) \<Rightarrow> if b then (x, s3) else (y, s3)) = snd p"
  by (cases p) (auto split: option.splits)

text \<open>
  Claim C9, as the code has it. A run of the pipeline creates the table \<open>tickers\<close>, empty,
  when it is asked to initialise the database, reaches that step and the table does not
  exist; it never inserts, replaces or updates a row of it, whether it returns or raises.
\<close>

theorem run_never_registers:
  "tickers (snd (run h rt1 rt2 ticker initdb up s))
     = (if initdb \<and> \<not> config_fails h \<and> \<not> connect_fails rt1
        then create_table (tickers s) else tickers s)"
proof (cases "config_fails h \<or> (initdb \<and> connect_fails rt1)")
  case True
  then show ?thesis by (auto simp: run_def)
next
  case False
  then have c: "\<not> config_fails h" and f: "\<not> (initdb \<and> connect_fails rt1)"
    by auto
  define s1 where "s1 = (if initdb then init_db s else s)"
  have s1: "tickers s1
      = (if initdb \<and> \<not> config_fails h \<and> \<not> connect_fails rt1
         then create_table (tickers s) else tickers s)"
    using False by (cases initdb) (simp_all add: s1_def init_db_def)
  note run = run_unfold[OF c f, of rt2 ticker up s, folded s1_def]
  show ?thesis
  proof (cases up)
    case None
    show ?thesis unfolding run using None s1 by simp
  next
    case (Some u)
    obtain r s2 where sv: "save_daily_metrics rt1 (processed u) s1 = (r, s2)"
      by (cases "save_daily_metrics rt1 (processed u) s1")
    have s2: "tickers s2 = tickers s1"
      using save_daily_metrics_frame(2)[of rt1 "processed u" s1] sv by simp
    show ?thesis
    proof (cases r)
      case None
      show ?thesis
        unfolding run using None Some sv s2 s1
        by (simp add: snd_case_outcome save_signal_events_frame(2))
    next
      case (Some e)
      show ?thesis
        unfolding run using Some \<open>up = Some u\<close> sv s2 s1 by simp
    qed
  qed
qed

lemma demo_host_fields:
  "config_fails demo_host = False" "export_fails demo_host = False"
  "json_encodes demo_host (VStr x) = True" "json_encodes demo_host (VDate d) = False"
  by (simp_all add: demo_host_def)

lemma demo_signal_saved:
  "save_signal_events demo_runtime ''ACME'' [event_of ''golden_cross'' (VStr ''2024-01-03'')]
     \<lparr>tickers = Some [], daily_metrics = Some tbl, signal_events = Some []\<rparr>
   = (None, \<lparr>tickers = Some [], daily_metrics = Some tbl,
        signal_events = Some [(1, \<lparr>se_ticker = VStr ''ACME'', se_date = VStr ''2024-01-03'',
            se_signal_type = VStr ''golden_cross'', se_meta = VStr ''{}''\<rparr>)]\<rparr>)"
  by (simp add: save_signal_events_def transaction_def execute_signal_def event_of_def
      demo_runtime_storage insert_or_replace_def next_rowid_def conflicts_def se_key_def
      signal_of_def dict_get_def bindable_event_def demo_runtime_def)

lemma demo_run:
  "run demo_host demo_runtime demo_runtime ''ACME'' True (Some demo_upstream) empty_db
   = (None, \<lparr>tickers = Some [],
        daily_metrics = Some [(1, acme_row (2024, 1, 2) 10), (2, acme_row (2024, 1, 3) 11)],
        signal_events = Some [(1, \<lparr>se_ticker = VStr ''ACME'', se_date = VStr ''2024-01-03'',
            se_signal_type = VStr ''golden_cross'', se_meta = VStr ''{}''\<rparr>)]\<rparr>)"
proof -
  have ev: "map (event_of ''golden_cross'') (golden_dates demo_upstream)
            @ map (event_of ''death_cross'') (death_dates demo_upstream)
            = [event_of ''golden_cross'' (VStr ''2024-01-03'')]"
    and ds: "golden_dates demo_upstream @ death_dates demo_upstream = [VStr ''2024-01-03'']"
    by (simp_all add: demo_upstream_def)
  have p: "processed demo_upstream = demo_frame"
    by (simp add: demo_upstream_def)
  have c: "\<not> config_fails demo_host" and n: "\<not> (True \<and> connect_fails demo_runtime)"
    by (simp_all add: demo_runtime_storage demo_host_fields)
  show ?thesis
    unfolding run_unfold[OF c n] option.case ev ds p if_True demo_saved_once prod.case
      demo_signal_saved
    by (simp add: demo_host_fields)
qed

text \<open>
  Claim C9 as stated fails: after the first run for a ticker, on a database that did not
  exist and with the date of its one event an ISO string, the run has returned without
  error and the table \<open>tickers\<close> has no row.
\<close>

theorem run_registers_nothing:
  "fst (run demo_host demo_runtime demo_runtime ''ACME'' True (Some demo_upstream) empty_db) = None
   \<and> tickers (snd (run demo_host demo_runtime demo_runtime ''ACME'' True (Some demo_upstream) empty_db))
       = Some []"
  by (simp add: demo_run)

text \<open>The theorem on a first run and on a second run after it.\<close>

theorem run_never_registers_witness:
  "tickers (snd (run demo_host demo_runtime demo_runtime ''ACME'' True (Some demo_upstream) empty_db))
     = Some []
   \<and> tickers (snd (run demo_host demo_runtime demo_runtime ''ACME'' False (Some demo_upstream)
        (snd (run demo_host demo_runtime demo_runtime ''ACME'' True (Some demo_upstream) empty_db))))
     = Some []"
  using run_never_registers[of demo_host demo_runtime demo_runtime "''ACME''" True "Some demo_upstream" empty_db]
    run_never_registers[of demo_host demo_runtime demo_runtime "''ACME''" False "Some demo_upstream"
      "snd (run demo_host demo_runtime demo_runtime ''ACME'' True (Some demo_upstream) empty_db)"]
  by (simp add: demo_runtime_storage demo_host_fields empty_db_def create_table_def)

text \<open>
  When the date of the event is a date object, the same run commits both batches and
  then raises in the export: \<open>json.dump\<close> has no encoding for a date.
\<close>

lemma run_export_raises:
  "fst (run demo_host demo_runtime demo_runtime ''ACME'' True
         (Some (demo_upstream\<lparr>golden_dates := [VDate (2024, 1, 3)]\<rparr>)) empty_db)
   = Some ExportError"
proof -
  let ?u = "demo_upstream\<lparr>golden_dates := [VDate (2024, 1, 3)]\<rparr>"
  have ev: "map (event_of ''golden_cross'') (golden_dates ?u)
            @ map (event_of ''death_cross'') (death_dates ?u) = demo_events"
    and ds: "golden_dates ?u @ death_dates ?u = [VDate (2024, 1, 3)]"
    by (simp_all add: demo_upstream_def demo_events_def)
  have p: "processed ?u = demo_frame"
    by (simp add: demo_upstream_def)
  have c: "\<not> config_fails demo_host" and n: "\<not> (True \<and> connect_fails demo_runtime)"
    by (simp_all add: demo_runtime_storage demo_host_fields)
  have sv: "fst (save_signal_events demo_runtime ''ACME'' demo_events
      \<lparr>tickers = Some [], daily_metrics = Some tbl, signal_events = Some []\<rparr>) = None" for tbl
    using save_signal_events_commits[OF reliable_demo _ demo_events_bindable] by simp
  show ?thesis
    unfolding run_unfold[OF c n] option.case ev ds p if_True demo_saved_once prod.case
    using sv[of "[(1, acme_row (2024, 1, 2) 10), (2, acme_row (2024, 1, 3) 11)]"]
    by (cases "save_signal_events demo_runtime ''ACME'' demo_events
          \<lparr>tickers = Some [],
             daily_metrics = Some [(1, acme_row (2024, 1, 2) 10), (2, acme_row (2024, 1, 3) 11)],
             signal_events = Some []\<rparr>")
       (simp add: demo_host_fields)
qed

section \<open>Columns outside the allowlist\<close>

lemma map_of_zip_map_same:
  "map_of (zip cs (map f cs)) c = (if c \<in> set cs then Some (f c) else None)"
  by (induction cs) auto

lemma cell_selected: "c \<in> set cs \<Longrightarrow> cell cs (map f cs) c = f c"
  by (simp add: cell_def dict_get_def map_of_zip_map_same)

lemma map_of_zip_set_cell:
  "map_of (zip cs (map g (zip cs r))) c = map_option (\<lambda>x. g (c, x)) (map_of (zip cs r) c)"
proof (induction cs arbitrary: r)
  case Nil
  then show ?case by simp
next
  case (Cons a cs)
  then show ?case by (cases r) auto
qed

lemma cell_present:
  "c \<in> set cs \<Longrightarrow> length r = length cs \<Longrightarrow> \<exists>x. map_of (zip cs r) c = Some x"
  by (metis map_of_zip_is_Some)

lemma cell_set_cell:
  "c \<in> set cs \<Longrightarrow> length r = length cs \<Longrightarrow>
   cell cs (set_cell cs c0 r v) c = (if c = c0 then v else cell cs r c)"
  using cell_present[of c cs r]
  by (auto simp: cell_def dict_get_def set_cell_def map_of_zip_set_cell)

lemma length_set_cell: "length r = length cs \<Longrightarrow> length (set_cell cs c r v) = length cs"
  by (simp add: set_cell_def)

lemma select_set_cell:
  assumes "set ks \<subseteq> set cs'" "set cs' \<subseteq> set cs" "length r = length cs"
  shows "map (cell cs' (set_cell cs' c0 (map (cell cs r) cs') v)) ks
       = map (cell cs (set_cell cs c0 r v)) ks"
proof (rule map_cong[OF refl])
  fix c assume "c \<in> set ks"
  then have c': "c \<in> set cs'" and c: "c \<in> set cs" using assms by auto
  have "cell cs' (set_cell cs' c0 (map (cell cs r) cs') v) c
        = (if c = c0 then v else cell cs' (map (cell cs r) cs') c)"
    using c' by (simp add: cell_set_cell)
  also have "\<dots> = (if c = c0 then v else cell cs r c)"
    using c' by (simp add: cell_selected)
  also have "\<dots> = cell cs (set_cell cs c0 r v) c"
    using c assms(3) by (simp add: cell_set_cell)
  finally show "cell cs' (set_cell cs' c0 (map (cell cs r) cs') v) c = cell cs (set_cell cs c0 r v) c" .
qed

lemma date_allowed: "''date'' \<in> set metric_columns"
  by (simp add: metric_columns_def)

lemma columns_drop_extra [simp]:
  "columns (drop_extra df) = filter (\<lambda>c. c \<in> set metric_columns) (columns df)"
  by (simp add: drop_extra_def select_columns_def)

lemma rows_drop_extra:
  "rows (drop_extra df) = map (\<lambda>r. map (cell (columns df) r) (columns (drop_extra df))) (rows df)"
  by (simp add: drop_extra_def select_columns_def)

lemma allowed_columns_drop_extra:
  "filter (\<lambda>c. c \<in> set (columns (drop_extra df))) metric_columns
   = filter (\<lambda>c. c \<in> set (columns df)) metric_columns"
  by (auto intro: filter_cong)

lemma column_values_drop_extra:
  "c \<in> set metric_columns \<Longrightarrow> c \<in> set (columns df) \<Longrightarrow>
   column_values (drop_extra df) c = column_values df c"
  by (simp add: column_values_def rows_drop_extra cell_selected o_def)

lemma select_drop_extra:
  "set ks \<subseteq> set (columns (drop_extra df)) \<Longrightarrow>
   select_columns ks (drop_extra df) = select_columns ks df"
  by (auto simp: select_columns_def rows_drop_extra cell_selected subset_iff simp del: columns_drop_extra)

lemma select_assign_drop_extra:
  assumes "wf_frame df" and "set ks \<subseteq> set (columns (drop_extra df))"
  shows "select_columns ks (assign_column (drop_extra df) c0 vs)
       = select_columns ks (assign_column df c0 vs)"
proof -
  let ?cs = "columns df" and ?cs' = "columns (drop_extra df)"
  have len: "\<forall>r \<in> set (rows df). length r = length ?cs"
    using assms(1) by (simp add: wf_frame_def list_all_iff)
  have sub: "set ?cs' \<subseteq> set ?cs" by auto
  have "map (\<lambda>r. map (cell ?cs' r) ks)
          (map (\<lambda>(r, v). set_cell ?cs' c0 r v) (zip (map (\<lambda>r. map (cell ?cs r) ?cs') (rows df)) vs))
      = map (\<lambda>r. map (cell ?cs r) ks) (map (\<lambda>(r, v). set_cell ?cs c0 r v) (zip (rows df) vs))"
    using select_set_cell[OF assms(2) sub] len
    by (auto simp: zip_map1 dest: set_zip_leftD)
  then show ?thesis
    by (simp add: select_columns_def assign_column_def rows_drop_extra del: columns_drop_extra)
qed

lemma metric_records_drop_extra:
  assumes "wf_frame df"
  shows "metric_records rt (drop_extra df) = metric_records rt df"
proof -
  let ?ks = "filter (\<lambda>c. c \<in> set (columns df)) metric_columns"
  have ks: "set ?ks \<subseteq> set (columns (drop_extra df))" by auto
  have d: "''date'' \<in> set (columns (drop_extra df)) \<longleftrightarrow> ''date'' \<in> set (columns df)"
    using date_allowed by simp
  show ?thesis
  proof (cases "''date'' \<in> set (columns df)")
    case False
    then show ?thesis
      using d select_drop_extra[OF ks]
      by (simp add: metric_records_def allowed_columns_drop_extra del: columns_drop_extra)
  next
    case True
    have cv: "column_values (drop_extra df) ''date'' = column_values df ''date''"
      using True date_allowed by (rule column_values_drop_extra[rotated])
    have ca: "columns (assign_column f c vs) = columns f" for f c vs
      by (simp add: assign_column_def)
    show ?thesis
    proof (cases "to_date rt (column_values df ''date'')")
      case None
      then show ?thesis using True d cv by (simp add: metric_records_def del: columns_drop_extra)
    next
      case (Some vs)
      then show ?thesis
        using True d cv select_assign_drop_extra[OF assms ks, of "''date''" vs]
        by (simp add: metric_records_def ca allowed_columns_drop_extra del: columns_drop_extra)
    qed
  qed
qed

text \<open>
  Claim C8. Only the columns of the allowlist are written: a call with a frame gives the
  result, and leaves the store, of the call with the frame stripped of every other
  column. So such columns never make a call fail, and when the stripped batch is valid
  (for the driver and the pandas of the runtime), the table exists and the storage engine
  does not fail, the call returns without error.
\<close>

theorem extra_fields_dropped:
  assumes "wf_frame df"
  shows "save_daily_metrics rt (drop_extra df) s = save_daily_metrics rt df s
       \<and> set (columns (drop_extra df)) \<subseteq> set metric_columns
       \<and> (reliable rt \<and> daily_metrics s \<noteq> None \<and> valid_batch rt (drop_extra df)
            \<longrightarrow> fst (save_daily_metrics rt df s) = None)"
proof -
  have e: "save_daily_metrics rt (drop_extra df) s = save_daily_metrics rt df s"
    by (simp add: save_daily_metrics_def metric_records_drop_extra[OF assms])
  have "fst (save_daily_metrics rt (drop_extra df) s) = None"
    if "reliable rt" "daily_metrics s \<noteq> None" "valid_batch rt (drop_extra df)"
    using save_daily_metrics_ok[OF that] by auto
  then show ?thesis using e by auto
qed

lemma wf_drop_extra: "wf_frame df \<Longrightarrow> wf_frame (drop_extra df)"
  by (simp add: wf_frame_def drop_extra_def select_columns_def list_all_iff)

lemma valid_demo_stripped: "valid_batch demo_runtime (drop_extra demo_frame)"
  using valid_demo
  by (simp add: valid_batch_def metric_records_drop_extra[OF wf_demo] wf_drop_extra[OF wf_demo])

text \<open>
  The theorem on the sample frame, whose column \<open>note\<close> is outside the allowlist: the
  call returns without error and stores what the frame without \<open>note\<close> stores, the two
  rows with their ticker, date and close.
\<close>

theorem extra_fields_dropped_witness:
  "wf_frame demo_frame \<and> ''note'' \<in> set (columns demo_frame) \<and> ''note'' \<notin> set metric_columns
   \<and> reliable demo_runtime \<and> daily_metrics (init_db empty_db) \<noteq> None
   \<and> valid_batch demo_runtime (drop_extra demo_frame)
   \<and> save_daily_metrics demo_runtime (drop_extra demo_frame) (init_db empty_db)
       = save_daily_metrics demo_runtime demo_frame (init_db empty_db)
   \<and> fst (save_daily_metrics demo_runtime demo_frame (init_db empty_db)) = None
   \<and> columns (drop_extra demo_frame) = [''date'', ''ticker'', ''close'']
   \<and> relation (daily_metrics (snd (save_daily_metrics demo_runtime (drop_extra demo_frame)
          (init_db empty_db))))
       = Some [acme_row (2024, 1, 2) 10, acme_row (2024, 1, 3) 11]"
proof -
  have st: "relation (daily_metrics (snd (save_daily_metrics demo_runtime demo_frame
          (init_db empty_db))))
       = Some [acme_row (2024, 1, 2) 10, acme_row (2024, 1, 3) 11]"
    by (simp add: demo_saved_once relation_def)
  have t: "daily_metrics (init_db empty_db) \<noteq> None"
    by (simp add: init_empty)
  have n: "''note'' \<in> set (columns demo_frame) \<and> ''note'' \<notin> set metric_columns
      \<and> columns (drop_extra demo_frame) = [''date'', ''ticker'', ''close'']"
    by (simp add: demo_frame_def metric_columns_def)
  from extra_fields_dropped[OF wf_demo, of demo_runtime "init_db empty_db"]
  show ?thesis
    using wf_demo reliable_demo t valid_demo_stripped n st by simp
qed

text \<open>
  Two remarks. A frame with a row and no column of the allowlist gives no record under
  pandas 2 and the call returns without writing; under pandas 3 it gives an empty dict, whose
  statement SQLite does not parse, and the call raises. An integer of more than 64 bits
  in a column of the allowlist makes the call raise, and nothing is written.
\<close>

lemma extras_only_frame_saved:
  "save_daily_metrics demo_runtime extras_only_frame (init_db empty_db) = (None, init_db empty_db)"
  "save_daily_metrics pandas3_runtime extras_only_frame (init_db empty_db)
     = (Some SyntaxError, init_db empty_db)"
  by (simp_all add: save_daily_metrics_def metric_records_def to_dict_records_def
      select_columns_def extras_only_frame_def metric_columns_def transaction_def
      execute_metric_def pandas3_runtime_def demo_runtime_def)

lemma big_integer_rejected:
  "save_daily_metrics demo_runtime big_frame (init_db empty_db) = (Some BindError, init_db empty_db)"
  by (simp add: save_daily_metrics_def metric_records_def to_dict_records_def column_values_def
      cell_def dict_get_def assign_column_def set_cell_def select_columns_def big_frame_def
      metric_columns_def transaction_def execute_metric_def init_empty demo_runtime_def)

section \<open>Moving averages\<close>

lemma those_None: "those xs = None \<longleftrightarrow> None \<in> set xs"
  by (induction xs) (auto split: option.splits)

lemma those_Some: "None \<notin> set xs \<Longrightarrow> those xs = Some (map the xs)"
proof (induction xs)
  case Nil
  then show ?case by simp
next
  case (Cons a xs)
  then obtain y where "a = Some y" by (cases a) auto
  then show ?case using Cons by simp
qed

lemma window_nth:
  assumes "n \<le> Suc i" and "i < length xs"
  shows "window n xs i = map ((!) xs) [Suc i - n..<Suc i]"
proof (rule nth_equalityI)
  show "length (window n xs i) = length (map ((!) xs) [Suc i - n..<Suc i])"
    using assms by (simp add: window_def del: upt_Suc)
next
  fix m assume "m < length (window n xs i)"
  then have m: "m < n" by (simp add: window_def)
  then have "map ((!) xs) [Suc i - n..<Suc i] ! m = xs ! (Suc i - n + m)"
    using assms by (simp del: upt_Suc)
  moreover have "window n xs i ! m = xs ! (Suc i - n + m)"
    using assms m by (simp add: window_def)
  ultimately show "window n xs i ! m = map ((!) xs) [Suc i - n..<Suc i] ! m" by simp
qed

lemma sma_None:
  assumes "i < length xs" and "0 < n"
  shows "sma n xs i = None \<longleftrightarrow> Suc i < n \<or> (\<exists>j. Suc i - n \<le> j \<and> j \<le> i \<and> xs ! j = None)"
proof (cases "n \<le> Suc i")
  case False
  then show ?thesis using assms by (simp add: sma_def)
next
  case True
  have h: "None \<in> set (window n xs i) \<longleftrightarrow> (\<exists>j. Suc i - n \<le> j \<and> j \<le> i \<and> xs ! j = None)"
  proof
    assume "None \<in> set (window n xs i)"
    then obtain j where "j \<in> {Suc i - n..<Suc i}" "xs ! j = None"
      unfolding window_nth[OF True assms(1)] by (auto simp del: upt_Suc)
    then show "\<exists>j. Suc i - n \<le> j \<and> j \<le> i \<and> xs ! j = None"
      by (auto simp: less_Suc_eq_le)
  next
    assume "\<exists>j. Suc i - n \<le> j \<and> j \<le> i \<and> xs ! j = None"
    then obtain j where "j \<in> {Suc i - n..<Suc i}" "xs ! j = None"
      by (auto simp: less_Suc_eq_le)
    then have "None \<in> (!) xs ` {Suc i - n..<Suc i}"
      by (metis imageI)
    then show "None \<in> set (window n xs i)"
      unfolding window_nth[OF True assms(1)] by (simp del: upt_Suc)
  qed
  have "sma n xs i = None \<longleftrightarrow> those (window n xs i) = None"
    using True assms(1) by (simp add: sma_def split: option.splits)
  then show ?thesis
    using True h by (simp add: those_None)
qed

lemma sma_Some:
  assumes "i < length xs" and "0 < n" and "n \<le> Suc i"
    and "\<forall>j. Suc i - n \<le> j \<and> j \<le> i \<longrightarrow> xs ! j \<noteq> None"
  shows "sma n xs i = Some ((\<Sum>j = Suc i - n..i. the (xs ! j)) / of_nat n)"
proof -
  have w: "window n xs i = map ((!) xs) [Suc i - n..<Suc i]"
    using assms by (simp add: window_nth)
  have nn: "None \<notin> set (window n xs i)"
    using assms(4) unfolding w by (auto simp: less_Suc_eq_le simp del: upt_Suc)
  have "sum_list (map the (window n xs i)) = sum_list (map (\<lambda>j. the (xs ! j)) [Suc i - n..<Suc i])"
    by (simp only: w map_map o_def)
  also have "\<dots> = sum (\<lambda>j. the (xs ! j)) (set [Suc i - n..<Suc i])"
    by (rule interv_sum_list_conv_sum_set_nat)
  also have "\<dots> = (\<Sum>j = Suc i - n..i. the (xs ! j))"
    by (simp only: set_upt atLeastLessThanSuc_atLeastAtMost)
  finally have "sum_list (map the (window n xs i)) = (\<Sum>j = Suc i - n..i. the (xs ! j))" .
  then show ?thesis
    using assms(1,3) by (simp add: sma_def those_Some[OF nn])
qed

lemma length_process [simp]: "length (process raw) = length raw"
  by (simp add: process_def)

lemma process_nth:
  "i < length raw \<Longrightarrow>
   process raw ! i = \<lparr>bar = raw ! i, sma50 = sma 50 (map rb_close raw) i,
                       sma200 = sma 200 (map rb_close raw) i\<rparr>"
  by (simp add: process_def nth_enumerate_eq)

lemma sma_process:
  assumes "i < length raw" and "0 < n" and "n \<le> Suc i"
    and "\<forall>j. Suc i - n \<le> j \<and> j \<le> i \<longrightarrow> rb_close (raw ! j) \<noteq> None"
  shows "sma n (map rb_close raw) i = Some ((\<Sum>j = Suc i - n..i. the (rb_close (raw ! j))) / of_nat n)"
proof -
  have "sma n (map rb_close raw) i
        = Some ((\<Sum>j = Suc i - n..i. the (map rb_close raw ! j)) / of_nat n)"
    using assms by (intro sma_Some) auto
  moreover have "(\<Sum>j = Suc i - n..i. the (map rb_close raw ! j))
        = (\<Sum>j = Suc i - n..i. the (rb_close (raw ! j)))"
    using assms(1) by (intro sum.cong) auto
  ultimately show ?thesis by simp
qed

lemma sma_process_None:
  assumes "i < length raw" and "0 < n"
  shows "sma n (map rb_close raw) i = None
         \<longleftrightarrow> Suc i < n \<or> (\<exists>j. Suc i - n \<le> j \<and> j \<le> i \<and> rb_close (raw ! j) = None)"
proof -
  have "(\<exists>j. Suc i - n \<le> j \<and> j \<le> i \<and> map rb_close raw ! j = None)
        \<longleftrightarrow> (\<exists>j. Suc i - n \<le> j \<and> j \<le> i \<and> rb_close (raw ! j) = None)"
    using assms(1) by (metis le_less_trans nth_map)
  then show ?thesis
    using sma_None[of i "map rb_close raw" n] assms by simp
qed

lemma all_present_nth:
  "list_all (\<lambda>b. rb_close b \<noteq> None) raw \<Longrightarrow> j < length raw \<Longrightarrow> rb_close (raw ! j) \<noteq> None"
  by (simp add: list_all_length)

text \<open>
  Claim C4. On a series whose closes are all present, \<open>sma50\<close> at index \<open>i\<close> is defined
  exactly when \<open>i \<ge> 49\<close> and is then the mean of the closes at \<open>i - 49\<close> to \<open>i\<close>;
  \<open>sma200\<close> is defined exactly when \<open>i \<ge> 199\<close> and is then the mean of the closes at
  \<open>i - 199\<close> to \<open>i\<close>; on a series constantly closing at \<open>c\<close> every defined average is
  \<open>c\<close>.
\<close>

theorem sma_threshold:
  assumes "list_all (\<lambda>b. rb_close b \<noteq> None) raw" and "i < length raw"
  shows "sma50 (process raw ! i)
           = (if 49 \<le> i then Some ((\<Sum>j = i - 49..i. the (rb_close (raw ! j))) / 50) else None)
       \<and> sma200 (process raw ! i)
           = (if 199 \<le> i then Some ((\<Sum>j = i - 199..i. the (rb_close (raw ! j))) / 200) else None)
       \<and> (list_all (\<lambda>b. rb_close b = Some c) raw \<longrightarrow>
            (49 \<le> i \<longrightarrow> sma50 (process raw ! i) = Some c)
            \<and> (199 \<le> i \<longrightarrow> sma200 (process raw ! i) = Some c))"
proof -
  have "rb_close (raw ! j) \<noteq> None" if "j \<le> i" for j
    using all_present_nth[OF assms(1), of j] that assms(2) by simp
  then have p: "\<forall>j. k \<le> j \<and> j \<le> i \<longrightarrow> rb_close (raw ! j) \<noteq> None" for k
    by blast
  have a: "sma50 (process raw ! i)
      = (if 49 \<le> i then Some ((\<Sum>j = i - 49..i. the (rb_close (raw ! j))) / 50) else None)"
  proof (cases "49 \<le> i")
    case True
    then show ?thesis
      using sma_process[OF assms(2) _ _ p, of 50] assms(2) by (simp add: process_nth)
  next
    case False
    then show ?thesis
      using sma_process_None[OF assms(2), of 50] assms(2) by (simp add: process_nth)
  qed
  have b: "sma200 (process raw ! i)
      = (if 199 \<le> i then Some ((\<Sum>j = i - 199..i. the (rb_close (raw ! j))) / 200) else None)"
  proof (cases "199 \<le> i")
    case True
    then show ?thesis
      using sma_process[OF assms(2) _ _ p, of 200] assms(2) by (simp add: process_nth)
  next
    case False
    then show ?thesis
      using sma_process_None[OF assms(2), of 200] assms(2) by (simp add: process_nth)
  qed
  have c: "(49 \<le> i \<longrightarrow> sma50 (process raw ! i) = Some c)
         \<and> (199 \<le> i \<longrightarrow> sma200 (process raw ! i) = Some c)"
    if "list_all (\<lambda>b. rb_close b = Some c) raw"
  proof -
    have v: "the (rb_close (raw ! j)) = c" if "j \<le> i" for j
      using \<open>list_all (\<lambda>b. rb_close b = Some c) raw\<close> that assms(2) by (simp add: list_all_length)
    have "(\<Sum>j = i - k..i. the (rb_close (raw ! j))) = (\<Sum>j = i - k..i. c)" for k
      by (intro sum.cong) (auto simp: v)
    then show ?thesis
      unfolding a b by simp
  qed
  from a b c show ?thesis by blast
qed

lemma flat_present: "list_all (\<lambda>b. rb_close b \<noteq> None) (flat_series n c)"
  by (simp add: flat_series_def list_all_iff sample_bar_def)

lemma flat_constant: "list_all (\<lambda>b. rb_close b = Some c) (flat_series n c)"
  by (simp add: flat_series_def list_all_iff sample_bar_def)

text \<open>
  The theorem on a series of 60 bars closing at 7: \<open>sma50\<close> is undefined at index 48,
  it is 7 at indices 49 and 59, and \<open>sma200\<close> is undefined at index 59.
\<close>

theorem sma_threshold_witness:
  "list_all (\<lambda>b. rb_close b \<noteq> None) (flat_series 60 7) \<and> length (flat_series 60 7) = 60
   \<and> sma50 (process (flat_series 60 7) ! 48) = None
   \<and> sma50 (process (flat_series 60 7) ! 49) = Some 7
   \<and> sma50 (process (flat_series 60 7) ! 59) = Some 7
   \<and> sma200 (process (flat_series 60 7) ! 59) = None"
proof -
  have l: "length (flat_series 60 7) = 60"
    by (simp add: flat_series_def)
  have i: "48 < length (flat_series 60 7)" "49 < length (flat_series 60 7)"
    "59 < length (flat_series 60 7)"
    by (simp_all add: l)
  have "sma50 (process (flat_series 60 7) ! 48) = None"
    using sma_threshold[OF flat_present i(1), of 7, THEN conjunct1] by simp
  moreover have "sma50 (process (flat_series 60 7) ! 49) = Some 7"
    using sma_threshold[OF flat_present i(2), of 7, THEN conjunct2, THEN conjunct2] flat_constant[of 7 60]
    by simp
  moreover have "sma50 (process (flat_series 60 7) ! 59) = Some 7"
    using sma_threshold[OF flat_present i(3), of 7, THEN conjunct2, THEN conjunct2] flat_constant[of 7 60]
    by simp
  moreover have "sma200 (process (flat_series 60 7) ! 59) = None"
    using sma_threshold[OF flat_present i(3), of 7, THEN conjunct2, THEN conjunct1] by simp
  ultimately show ?thesis
    using flat_present[of 60 7] l by simp
qed

text \<open>
  Claim C5, as the model has it. A missing close anywhere in the trailing window of an
  index leaves the average undefined at that index. On a series of 260 bars whose close is
  missing at index 30 only, the windows of \<open>sma50\<close> that hold the gap are those of the
  indices 30 to 79 and \<open>sma50\<close> is undefined exactly at the indices 0 to 79 (0 to 48 have
  no full window); the windows of \<open>sma200\<close> that hold the gap are those of the indices 30
  to 229 and \<open>sma200\<close> is undefined exactly at the indices 0 to 229.
\<close>

theorem sma_gap:
  assumes "i < length raw"
  shows "(i - 49 \<le> j \<and> j \<le> i \<and> rb_close (raw ! j) = None \<longrightarrow> sma50 (process raw ! i) = None)
       \<and> (i - 199 \<le> j \<and> j \<le> i \<and> rb_close (raw ! j) = None \<longrightarrow> sma200 (process raw ! i) = None)
       \<and> (length raw = 260 \<and> rb_close (raw ! 30) = None
            \<and> list_all (\<lambda>b. rb_close b \<noteq> None) (take 30 raw @ drop 31 raw) \<longrightarrow>
            (sma50 (process raw ! i) = None \<longleftrightarrow> i \<le> 79)
            \<and> (sma200 (process raw ! i) = None \<longleftrightarrow> i \<le> 229))"
proof -
  have n50: "sma50 (process raw ! i) = None
      \<longleftrightarrow> i < 49 \<or> (\<exists>j. i - 49 \<le> j \<and> j \<le> i \<and> rb_close (raw ! j) = None)"
    using sma_process_None[OF assms, of 50] assms by (simp add: process_nth)
  have n200: "sma200 (process raw ! i) = None
      \<longleftrightarrow> i < 199 \<or> (\<exists>j. i - 199 \<le> j \<and> j \<le> i \<and> rb_close (raw ! j) = None)"
    using sma_process_None[OF assms, of 200] assms by (simp add: process_nth)
  have ex: "(sma50 (process raw ! i) = None \<longleftrightarrow> i \<le> 79)
          \<and> (sma200 (process raw ! i) = None \<longleftrightarrow> i \<le> 229)"
    if l: "length raw = 260" and g: "rb_close (raw ! 30) = None"
      and o: "list_all (\<lambda>b. rb_close b \<noteq> None) (take 30 raw @ drop 31 raw)"
  proof -
    have lo: "rb_close (raw ! j) \<noteq> None" if "j < 30" for j
    proof -
      have "take 30 raw ! j = raw ! j" using that by simp
      moreover have "j < length (take 30 raw)" using that l by simp
      ultimately have "raw ! j \<in> set (take 30 raw)" by (metis nth_mem)
      then show ?thesis using o by (auto simp: list_all_iff)
    qed
    have hi: "rb_close (raw ! j) \<noteq> None" if "30 < j" "j < 260" for j
    proof -
      have "drop 31 raw ! (j - 31) = raw ! j" using that l by simp
      moreover have "j - 31 < length (drop 31 raw)" using that l by simp
      ultimately have "raw ! j \<in> set (drop 31 raw)" by (metis nth_mem)
      then show ?thesis using o by (auto simp: list_all_iff)
    qed
    have only: "rb_close (raw ! j) = None \<longleftrightarrow> j = 30" if "j < 260" for j
      using lo[of j] hi[of j] g that by (cases "j < 30"; cases "j = 30") auto
    have w: "(\<exists>j. i - k \<le> j \<and> j \<le> i \<and> rb_close (raw ! j) = None) \<longleftrightarrow> i - k \<le> 30 \<and> 30 \<le> i" for k
      using only assms l by (metis le_less_trans)
    show ?thesis
      unfolding n50 n200 w by auto
  qed
  from n50 n200 ex show ?thesis by blast
qed

lemma gap_series_shape:
  "length gap_series = 260" "rb_close (gap_series ! 30) = None"
  "list_all (\<lambda>b. rb_close b \<noteq> None) (take 30 gap_series @ drop 31 gap_series)"
  by (simp_all add: gap_series_def sample_bar_def take_map drop_map take_upt drop_upt list_all_iff
      del: upt_Suc)

text \<open>
  The theorem on the sample series with its gap at index 30: \<open>sma50\<close> is undefined at
  29 and at 79 and defined at 80, \<open>sma200\<close> is undefined at 229 and defined at 230.
\<close>

theorem sma_gap_witness:
  "length gap_series = 260 \<and> rb_close (gap_series ! 30) = None
   \<and> list_all (\<lambda>b. rb_close b \<noteq> None) (take 30 gap_series @ drop 31 gap_series)
   \<and> sma50 (process gap_series ! 29) = None \<and> sma50 (process gap_series ! 79) = None
   \<and> sma50 (process gap_series ! 80) \<noteq> None
   \<and> sma200 (process gap_series ! 229) = None \<and> sma200 (process gap_series ! 230) \<noteq> None"
proof -
  note g = gap_series_shape
  have i: "29 < length gap_series" "79 < length gap_series" "80 < length gap_series"
    "229 < length gap_series" "230 < length gap_series"
    by (simp_all add: g(1))
  have "sma50 (process gap_series ! 29) = None"
    using sma_gap[OF i(1), of 30, THEN conjunct2, THEN conjunct2] g by simp
  moreover have "sma50 (process gap_series ! 79) = None"
    using sma_gap[OF i(2), of 30, THEN conjunct1] g by simp
  moreover have "sma50 (process gap_series ! 80) \<noteq> None"
    using sma_gap[OF i(3), of 30, THEN conjunct2, THEN conjunct2] g by simp
  moreover have "sma200 (process gap_series ! 229) = None"
    using sma_gap[OF i(4), of 30, THEN conjunct2, THEN conjunct1] g by simp
  moreover have "sma200 (process gap_series ! 230) \<noteq> None"
    using sma_gap[OF i(5), of 30, THEN conjunct2, THEN conjunct2] g by simp
  ultimately show ?thesis using g by simp
qed

text \<open>
  Claim C5 as stated fails on its own example: on the series of 260 bars whose close is
  missing at index 30 only, \<open>sma50\<close> and \<open>sma200\<close> are undefined at index 0, which is
  outside 30 to 79 and outside 30 to 229.
\<close>

theorem sma_gap_not_exact:
  "length gap_series = 260 \<and> rb_close (gap_series ! 30) = None
   \<and> list_all (\<lambda>b. rb_close b \<noteq> None) (take 30 gap_series @ drop 31 gap_series)
   \<and> sma50 (process gap_series ! 0) = None \<and> sma200 (process gap_series ! 0) = None"
proof -
  have i: "0 < length gap_series" by (simp add: gap_series_shape(1))
  have "sma50 (process gap_series ! 0) = None" "sma200 (process gap_series ! 0) = None"
    using sma_process_None[OF i, of 50] sma_process_None[OF i, of 200] i
    by (simp_all add: process_nth)
  then show ?thesis using gap_series_shape by simp
qed

section \<open>Crossovers\<close>

lemma cross_conditions_exclusive: "\<not> (golden_at p c \<and> death_at p' c)"
  by (auto simp: golden_at_def death_at_def split: option.splits)

lemma zip_tl_right: "(p, c) \<in> set (zip xs (tl xs)) \<Longrightarrow> c \<in> set xs"
  by (cases xs) (auto dest: set_zip_rightD)

lemma golden_date:
  "d \<in> set (detect_golden_crossover series) \<Longrightarrow>
   \<exists>p c. c \<in> set series \<and> golden_at p c \<and> rb_date (bar c) = d"
  by (auto simp: detect_golden_crossover_def dest: zip_tl_right)

lemma death_date:
  "d \<in> set (detect_death_cross series) \<Longrightarrow>
   \<exists>p c. c \<in> set series \<and> death_at p c \<and> rb_date (bar c) = d"
  by (auto simp: detect_death_cross_def dest: zip_tl_right)

text \<open>
  Claim C6. The conditions of the golden cross and of the death cross never hold both
  between a record and the one after it, and on a series without two records of the same
  date (a MetricRecord series has none) no date is in both results.
\<close>

theorem crossover_exclusive:
  "\<not> (golden_at prev cur \<and> death_at prev cur)
   \<and> (distinct (map (\<lambda>m. rb_date (bar m)) series) \<longrightarrow>
        set (detect_golden_crossover series) \<inter> set (detect_death_cross series) = {})"
proof -
  have "set (detect_golden_crossover series) \<inter> set (detect_death_cross series) = {}"
    if d: "distinct (map (\<lambda>m. rb_date (bar m)) series)"
  proof (rule ccontr)
    assume "set (detect_golden_crossover series) \<inter> set (detect_death_cross series) \<noteq> {}"
    then obtain x where "x \<in> set (detect_golden_crossover series)" "x \<in> set (detect_death_cross series)"
      by auto
    then obtain p c p' c' where c: "c \<in> set series" "golden_at p c" "rb_date (bar c) = x"
      and c': "c' \<in> set series" "death_at p' c'" "rb_date (bar c') = x"
      using golden_date death_date by metis
    have "inj_on (\<lambda>m. rb_date (bar m)) (set series)"
      using d by (simp add: distinct_map)
    then have "c = c'" using c c' by (auto dest: inj_onD)
    then show False using c(2) c'(2) cross_conditions_exclusive by blast
  qed
  then show ?thesis using cross_conditions_exclusive by blast
qed

lemma cross_series_results:
  "distinct (map (\<lambda>m. rb_date (bar m)) cross_series)"
  "detect_golden_crossover cross_series = [(2002, 1, 3)]"
  "detect_death_cross cross_series = []"
  by (simp_all add: cross_series_def sample_bar_def detect_golden_crossover_def
      detect_death_cross_def golden_at_def death_at_def)

text \<open>
  The theorem on the sample series with the averages 10, 10, 12 and 11, 11, 11: one golden
  cross, at the third record, and no death cross.
\<close>

theorem crossover_exclusive_witness:
  "distinct (map (\<lambda>m. rb_date (bar m)) cross_series)
   \<and> detect_golden_crossover cross_series = [(2002, 1, 3)]
   \<and> detect_death_cross cross_series = []
   \<and> set (detect_golden_crossover cross_series) \<inter> set (detect_death_cross cross_series) = {}"
proof -
  from crossover_exclusive[of _ _ cross_series]
  have "set (detect_golden_crossover cross_series) \<inter> set (detect_death_cross cross_series) = {}"
    using cross_series_results(1) by blast
  then show ?thesis using cross_series_results by simp
qed

section \<open>Empty inputs\<close>

lemma empty_frame_records:
  "to_date rt [] \<noteq> None \<Longrightarrow> metric_records rt \<lparr>columns = cs, rows = []\<rparr> = Some []"
  by (auto simp: metric_records_def column_values_def assign_column_def select_columns_def
      to_dict_records_def)

lemma save_empty_frame:
  "\<not> connect_fails rt \<Longrightarrow> to_date rt [] \<noteq> None \<Longrightarrow>
   save_daily_metrics rt \<lparr>columns = cs, rows = []\<rparr> s = (None, s)"
  by (simp add: save_daily_metrics_def empty_frame_records)

lemma save_no_events:
  "\<not> connect_fails rt \<Longrightarrow> \<not> commit_fails rt \<Longrightarrow> save_signal_events rt ticker [] s = (None, s)"
  by (simp add: save_signal_events_def transaction_def)

text \<open>
  Claim C7. On an empty series the Processor returns no record and the two detectors
  return no date. After \<open>init_db\<close>, when the database can be reached, saving a frame
  without rows (of any columns; pandas converts an empty date column without raising)
  returns without error and leaves the store as it was, and so does saving no event, whose
  empty transaction has to commit.
\<close>

theorem empty_inputs:
  "process [] = [] \<and> detect_golden_crossover (process []) = []
   \<and> detect_death_cross (process []) = []
   \<and> (\<not> connect_fails rt \<and> to_date rt [] \<noteq> None \<longrightarrow>
        save_daily_metrics rt \<lparr>columns = cs, rows = []\<rparr> (init_db s) = (None, init_db s))
   \<and> (\<not> connect_fails rt \<and> \<not> commit_fails rt \<longrightarrow>
        save_signal_events rt ticker [] (init_db s) = (None, init_db s))"
  by (simp add: process_def detect_golden_crossover_def detect_death_cross_def
      save_empty_frame save_no_events)

text \<open>The theorem with the sample runtime, on a database that has just been created.\<close>

theorem empty_inputs_witness:
  "\<not> connect_fails demo_runtime \<and> \<not> commit_fails demo_runtime \<and> to_date demo_runtime [] \<noteq> None
   \<and> save_daily_metrics demo_runtime \<lparr>columns = metric_columns, rows = []\<rparr> (init_db empty_db)
       = (None, init_db empty_db)
   \<and> save_signal_events demo_runtime ''ACME'' [] (init_db empty_db) = (None, init_db empty_db)"
proof -
  have h: "\<not> connect_fails demo_runtime" "\<not> commit_fails demo_runtime"
    "to_date demo_runtime [] \<noteq> None"
    by (simp_all add: demo_runtime_def)
  from empty_inputs[of demo_runtime metric_columns empty_db "''ACME''"]
  show ?thesis using h by simp
qed

end
